theory Spec2Isabelle
  imports Main
begin

section \<open>Formats, error codes and control flow\<close>

text \<open>
  The embedding follows \<^verbatim>\<open>src/main/graphic_main.c\<close>. The enum \<^verbatim>\<open>FileFormat\<close> is
  declared there (lines 11-18).
\<close>

datatype FileFormat =
    FILEFORMAT_UNDEFINED
  | FILEFORMAT_MATRIX_DENSE
  | FILEFORMAT_MATRIX_SPARSE
  | FILEFORMAT_GRAPH_EDGELIST
  | FILEFORMAT_GRAPH_DOT

text \<open>
  Modelled from the spec: the enum \<^verbatim>\<open>CMR_ERROR\<close> is declared in the library header
  \<^verbatim>\<open>cmr/env.h\<close>, which is not part of the sources. The program names three of its
  values (\<^verbatim>\<open>CMR_OKAY\<close>, \<^verbatim>\<open>CMR_ERROR_INPUT\<close>, \<^verbatim>\<open>CMR_ERROR_MEMORY\<close>; the spec's
  error kinds Input and Memory); every other code the header may declare is
  \<open>CMR_ERROR_OTHER k\<close> and reaches the \<^verbatim>\<open>default:\<close> branch of the switch in \<^verbatim>\<open>main\<close>.
\<close>

datatype CMR_ERROR =
    CMR_OKAY
  | CMR_ERROR_INPUT
  | CMR_ERROR_MEMORY
  | CMR_ERROR_OTHER nat

text \<open>
  A statement either falls through to the next statement with a value, or leaves the
  enclosing function with \<^verbatim>\<open>return\<close>, or the process stops abnormally (a read through
  a null pointer, a read outside an array, a failed \<^verbatim>\<open>assert\<close>: C leaves the first two
  undefined, the model stops there). A program fragment denotes how it ends together
  with the text it has written to \<^verbatim>\<open>stdout\<close>. Diagnostics on \<^verbatim>\<open>stderr\<close> carry clock
  readings and are not modelled.
\<close>

datatype ('r, 'a) flow = Continue 'a | Return 'r | Abort

type_synonym ('r, 'a) prog = "('r, 'a) flow \<times> string"

definition continue :: "'a \<Rightarrow> ('r, 'a) prog" where
  "continue x = (Continue x, [])"

definition ret :: "'r \<Rightarrow> ('r, 'a) prog" where
  "ret r = (Return r, [])"

definition abort :: "('r, 'a) prog" where
  "abort = (Abort, [])"

definition printf :: "string \<Rightarrow> ('r, unit) prog" where
  "printf s = (Continue (), s)"

definition puts :: "string \<Rightarrow> ('r, unit) prog" where
  "puts s = printf (s @ [CHR 0x0A])"

text \<open>Sequencing: the second fragment runs only when the first falls through.\<close>

definition andThen :: "('r, 'a) prog \<Rightarrow> ('a \<Rightarrow> ('r, 'b) prog) \<Rightarrow> ('r, 'b) prog" where
  "andThen m f =
     (case m of
        (Continue x, out) \<Rightarrow> (case f x of (fl, out') \<Rightarrow> (fl, out @ out'))
      | (Return r, out) \<Rightarrow> (Return r, out)
      | (Abort, out) \<Rightarrow> (Abort, out))"

text \<open>
  Modelled from the spec: the macro \<^verbatim>\<open>CMR_CALL\<close> comes from \<^verbatim>\<open>cmr/env.h\<close>. Every call
  of a library function is wrapped in it; the spec's error design says that all
  engine-level failures propagate upward unconditionally, so a status other than
  \<^verbatim>\<open>CMR_OKAY\<close> is returned from the enclosing function at once. A library call is
  given as its status paired with what it stored through its output parameters.
\<close>

definition CMR_CALL :: "CMR_ERROR \<times> 'a \<Rightarrow> (CMR_ERROR, 'a) prog" where
  "CMR_CALL c = (if fst c = CMR_OKAY then continue (snd c) else ret (fst c))"

text \<open>The same for a library call that writes text to \<^verbatim>\<open>stdout\<close>: the text it wrote stays.\<close>

definition CMR_CALL_stdout :: "CMR_ERROR \<times> string \<Rightarrow> (CMR_ERROR, unit) prog" where
  "CMR_CALL_stdout c = (if fst c = CMR_OKAY then Continue () else Return (fst c), snd c)"

text \<open>Reading through a pointer, and reading an array element at a \<^verbatim>\<open>size_t\<close> or \<^verbatim>\<open>int\<close> index.\<close>

definition deref :: "'a option \<Rightarrow> ('r, 'a) prog" where
  "deref p = (case p of None \<Rightarrow> abort | Some x \<Rightarrow> continue x)"

definition array_read :: "'a list option \<Rightarrow> nat \<Rightarrow> ('r, 'a) prog" where
  "array_read a i =
     (case a of None \<Rightarrow> abort
      | Some xs \<Rightarrow> if i < length xs then continue (xs ! i) else abort)"

definition array_read_int :: "'a list option \<Rightarrow> int \<Rightarrow> ('r, 'a) prog" where
  "array_read_int a e = (if 0 \<le> e then array_read a (nat e) else abort)"

text \<open>
  \<^verbatim>\<open>for (size_t i = i0; i < n; ++i) body\<close>, with the variables the body updates passed
  along as \<open>s\<close>. Matrix dimensions and counts are \<^verbatim>\<open>size_t\<close> values that index arrays held
  in memory, so \<open>i + 1\<close> never wraps; they are natural numbers here.
\<close>

function for_loop :: "nat \<Rightarrow> nat \<Rightarrow> (nat \<Rightarrow> 's \<Rightarrow> ('r, 's) prog) \<Rightarrow> 's \<Rightarrow> ('r, 's) prog" where
  "for_loop i n body s =
     (if i < n then andThen (body i s) (\<lambda>s'. for_loop (Suc i) n body s') else continue s)"
  by pat_completeness auto
termination
  by (relation "measure (\<lambda>(i, n, body, s). n - i)") auto

declare for_loop.simps [simp del]

section \<open>Decimal output\<close>

text \<open>
  What \<^verbatim>\<open>printf\<close> writes for \<^verbatim>\<open>%d\<close> and \<^verbatim>\<open>%ld\<close>: the decimal digits, with a sign when
  negative. The program passes \<^verbatim>\<open>size_t\<close> values to \<^verbatim>\<open>%ld\<close>; they are row and column
  numbers of a matrix held in memory, far below the point where a \<^verbatim>\<open>long\<close> turns negative.
\<close>

definition digit :: "nat \<Rightarrow> char" where
  "digit d = ''0123456789'' ! (d mod 10)"

function dec_nat :: "nat \<Rightarrow> string" where
  "dec_nat n = (if n < 10 then [digit n] else dec_nat (n div 10) @ [digit n])"
  by pat_completeness auto
termination
  by (relation "measure (\<lambda>n. n)") auto

declare dec_nat.simps [simp del]

definition dec :: "int \<Rightarrow> string" where
  "dec i = (if i < 0 then CHR ''-'' # dec_nat (nat (- i)) else dec_nat (nat i))"

section \<open>Data model\<close>

text \<open>
  Modelled from the spec: the types below are declared in the library headers
  (\<^verbatim>\<open>cmr/matrix.h\<close>, \<^verbatim>\<open>cmr/element.h\<close>, \<^verbatim>\<open>cmr/graph.h\<close>), which are not part of the
  sources; the fields are the ones the program reads.

  Matrix: dimensions \<open>numRows \<times> numColumns\<close>, each entry one of -1, 0, +1.
\<close>

record CMR_CHRMAT =
  numRows :: nat
  numColumns :: nat
  entries :: "int list list"

text \<open>
  Modelled from the spec: Element Index, a discriminated value \<open>Row(i)\<close> or \<open>Column(j)\<close>,
  0-based, that can be attached to a graph edge; an edge may also carry no tag. The
  program tests it with \<^verbatim>\<open>CMRelementIsRow\<close> / \<^verbatim>\<open>CMRelementIsColumn\<close> and reads the index
  with \<^verbatim>\<open>CMRelementToRowIndex\<close> / \<^verbatim>\<open>CMRelementToColumnIndex\<close>.
\<close>

datatype CMR_ELEMENT = NoElement | RowElement nat | ColumnElement nat

definition CMRrowToElement :: "nat \<Rightarrow> CMR_ELEMENT" where
  "CMRrowToElement row = RowElement row"

definition CMRcolumnToElement :: "nat \<Rightarrow> CMR_ELEMENT" where
  "CMRcolumnToElement column = ColumnElement column"

text \<open>
  Modelled from the spec: the stable string rendering of an Element Index, \<open>rN\<close> / \<open>cN\<close>,
  1-based for display. The program renders row and column elements only; the spec gives
  no rendering for an untagged value.
\<close>

definition CMRelementString :: "CMR_ELEMENT \<Rightarrow> string" where
  "CMRelementString element =
     (case element of
        RowElement i \<Rightarrow> ''r'' @ dec (int (i + 1))
      | ColumnElement j \<Rightarrow> ''c'' @ dec (int (j + 1))
      | NoElement \<Rightarrow> [])"

text \<open>
  Modelled from the spec: Graph, a multigraph whose edges each carry two endpoint nodes.
  Edges and nodes are \<^verbatim>\<open>int\<close> identifiers (the program stores \<open>-1\<close> in an edge variable
  and prints nodes with \<^verbatim>\<open>%d\<close>). \<open>graphEdges\<close> lists the edges in the order in which
  \<^verbatim>\<open>CMRgraphEdgesFirst\<close> / \<^verbatim>\<open>CMRgraphEdgesNext\<close> visit them.
\<close>

record CMR_GRAPH =
  graphEdges :: "int list"
  graphEdgeU :: "int \<Rightarrow> int"
  graphEdgeV :: "int \<Rightarrow> int"

definition CMRgraphEdgeU :: "CMR_GRAPH option \<Rightarrow> int \<Rightarrow> ('r, int) prog" where
  "CMRgraphEdgeU graph e = andThen (deref graph) (\<lambda>g. continue (graphEdgeU g e))"

definition CMRgraphEdgeV :: "CMR_GRAPH option \<Rightarrow> int \<Rightarrow> ('r, int) prog" where
  "CMRgraphEdgeV graph e = andThen (deref graph) (\<lambda>g. continue (graphEdgeV g e))"

text \<open>
  Modelled from the spec: Submatrix (violator witness), an ordered set of row indices and
  an ordered set of column indices.
\<close>

record CMR_SUBMAT =
  sub_numRows :: nat
  sub_rows :: "nat list"
  sub_numColumns :: nat
  sub_columns :: "nat list"

section \<open>External collaborators\<close>

text \<open>
  The recognition engine, the reconstruction engine, the stream parsers, the matrix
  printers and the memory routines are library functions outside the sources. The program
  is modelled relative to a \<open>world\<close> that fixes what each of them returns: its
  \<^verbatim>\<open>CMR_ERROR\<close> status and what it stores through its output parameters.
\<close>

type_synonym FILE = string

text \<open>What the recognition engine stores into the caller's variables.\<close>

record test_output =
  out_isCoGraphic :: bool
  out_graph :: "CMR_GRAPH option"
  out_rowEdges :: "int list option"
  out_columnEdges :: "int list option"
  out_submatrix :: "CMR_SUBMAT option"

text \<open>
  What the reconstruction engine stores through its two matrix parameters (the third and
  the fourth argument of \<^verbatim>\<open>CMRcomputeGraphicMatrix\<close>) and into \<^verbatim>\<open>isCorrectForest\<close>.
\<close>

record compute_output =
  out_third :: "CMR_CHRMAT option"
  out_fourth :: "CMR_CHRMAT option"
  out_isCorrectForest :: bool

text \<open>
  The arguments of one call of \<^verbatim>\<open>CMRcomputeGraphicMatrix\<close>; a matrix parameter is either
  \<^verbatim>\<open>NULL\<close> (\<open>False\<close>) or the address of the caller's variable \<^verbatim>\<open>matrix\<close> (\<open>True\<close>).
\<close>

record compute_input =
  in_graph :: "CMR_GRAPH option"
  in_third :: bool
  in_fourth :: bool
  in_numForestEdges :: nat
  in_forestEdges :: "int list"
  in_numCoforestEdges :: nat
  in_coforestEdges :: "int list"

record world =
  fopen :: "string \<Rightarrow> FILE option"
  stdin :: FILE
  CMRcreateEnvironment :: CMR_ERROR
  CMRfreeEnvironment :: CMR_ERROR
  CMRchrmatCreateFromDenseStream :: "FILE \<Rightarrow> CMR_ERROR \<times> CMR_CHRMAT"
  CMRchrmatCreateFromSparseStream :: "FILE \<Rightarrow> CMR_ERROR \<times> CMR_CHRMAT"
  CMRstatsGraphicInit :: CMR_ERROR
  CMRstatsGraphicPrint :: CMR_ERROR
  CMRtestGraphicMatrix :: "CMR_CHRMAT \<Rightarrow> bool \<Rightarrow> CMR_ERROR \<times> test_output"
  CMRtestCographicMatrix :: "CMR_CHRMAT \<Rightarrow> bool \<Rightarrow> CMR_ERROR \<times> test_output"
  CMRfreeBlockArray :: CMR_ERROR
  CMRgraphFree :: CMR_ERROR
  CMRsubmatFree :: CMR_ERROR
  CMRchrmatFree :: CMR_ERROR
  CMRchrmatZoomSubmat :: "CMR_CHRMAT \<Rightarrow> CMR_SUBMAT \<Rightarrow> CMR_ERROR \<times> CMR_CHRMAT option"
  CMRchrmatPrintDense :: "CMR_CHRMAT option \<Rightarrow> char \<Rightarrow> bool \<Rightarrow> CMR_ERROR \<times> string"
  CMRchrmatPrintSparse :: "CMR_CHRMAT option \<Rightarrow> CMR_ERROR \<times> string"
  CMRgraphCreateFromEdgeList ::
    "FILE \<Rightarrow> CMR_ERROR \<times> (CMR_GRAPH option \<times> CMR_ELEMENT list option)"
  CMRallocBlockArray :: "nat \<Rightarrow> CMR_ERROR \<times> (nat \<Rightarrow> int)"
  CMRcomputeGraphicMatrix :: "compute_input \<Rightarrow> CMR_ERROR \<times> compute_output"

text \<open>Lines 58 and 259: \<^verbatim>\<open>strcmp(instanceFileName, "-") ? fopen(instanceFileName, "r") : stdin\<close>.\<close>

definition open_instance :: "world \<Rightarrow> string \<Rightarrow> FILE option" where
  "open_instance w instanceFileName =
     (if instanceFileName \<noteq> ''-'' then fopen w instanceFileName else Some (stdin w))"

section \<open>Matrix to graph: \<^verbatim>\<open>matrixToGraph\<close>\<close>

text \<open>
  Lines 62-75: create the environment, read the matrix in the input format, and read
  \<^verbatim>\<open>matrix->numRows\<close> for the diagnostic. For an input format that is neither dense nor
  sparse the variable \<^verbatim>\<open>matrix\<close> is still \<^verbatim>\<open>NULL\<close> there.
\<close>

definition matrixToGraph_read :: "world \<Rightarrow> FILE \<Rightarrow> FileFormat \<Rightarrow> (CMR_ERROR, CMR_CHRMAT) prog" where
  "matrixToGraph_read w instanceFile inputFormat =
     andThen (CMR_CALL (CMRcreateEnvironment w, ())) (\<lambda>_.
     andThen
       (if inputFormat = FILEFORMAT_MATRIX_DENSE then
          andThen (CMR_CALL (CMRchrmatCreateFromDenseStream w instanceFile)) (\<lambda>m. continue (Some m))
        else if inputFormat = FILEFORMAT_MATRIX_SPARSE then
          andThen (CMR_CALL (CMRchrmatCreateFromSparseStream w instanceFile)) (\<lambda>m. continue (Some m))
        else continue None) (\<lambda>matrix.
     deref matrix))"

text \<open>
  Lines 79-102: the recognition engine is called with the addresses of \<^verbatim>\<open>isCoGraphic\<close>,
  \<^verbatim>\<open>graph\<close>, \<^verbatim>\<open>rowEdges\<close>, \<^verbatim>\<open>columnEdges\<close> and, when a violator was asked for, of
  \<^verbatim>\<open>submatrix\<close>. The variable \<^verbatim>\<open>edgesReversed\<close> (line 83) is passed to neither call.
\<close>

definition matrixToGraph_test ::
  "world \<Rightarrow> CMR_CHRMAT \<Rightarrow> bool \<Rightarrow> bool \<Rightarrow> bool \<Rightarrow> (CMR_ERROR, test_output) prog" where
  "matrixToGraph_test w matrix cographic wantSubmatrix printStats =
     andThen (CMR_CALL (CMRstatsGraphicInit w, ())) (\<lambda>_.
     andThen
       (if cographic then CMR_CALL (CMRtestCographicMatrix w matrix wantSubmatrix)
        else CMR_CALL (CMRtestGraphicMatrix w matrix wantSubmatrix)) (\<lambda>t.
     andThen (if printStats then CMR_CALL (CMRstatsGraphicPrint w, ()) else continue ()) (\<lambda>_.
     continue t)))"

text \<open>
  The block repeated in each of the six loops (lines 113-120 and their copies): the
  endpoints of edge \<open>e\<close>, exchanged when \<^verbatim>\<open>edgesReversed && edgesReversed[e]\<close>.
\<close>

definition edge_endpoints ::
  "CMR_GRAPH option \<Rightarrow> bool list option \<Rightarrow> int \<Rightarrow> ('r, int \<times> int) prog" where
  "edge_endpoints graph edgesReversed e =
     andThen (CMRgraphEdgeU graph e) (\<lambda>u.
     andThen (CMRgraphEdgeV graph e) (\<lambda>v.
     (case edgesReversed of
        None \<Rightarrow> continue (u, v)
      | Some _ \<Rightarrow>
          andThen (array_read_int edgesReversed e) (\<lambda>reversed.
          if reversed then continue (v, u) else continue (u, v)))))"

text \<open>The four \<^verbatim>\<open>printf\<close> formats of the serializer.\<close>

definition edgelist_row_line :: "int \<Rightarrow> int \<Rightarrow> nat \<Rightarrow> string" where
  "edgelist_row_line u v row =
     dec u @ '' '' @ dec v @ '' r'' @ dec (int (row + 1)) @ [CHR 0x0A]"

definition edgelist_column_line :: "int \<Rightarrow> int \<Rightarrow> nat \<Rightarrow> string" where
  "edgelist_column_line u v column =
     dec u @ '' '' @ dec v @ '' c'' @ dec (int (column + 1)) @ [CHR 0x0A]"

definition dot_row_line :: "int \<Rightarrow> int \<Rightarrow> nat \<Rightarrow> string" where
  "dot_row_line u v row =
     '' v_'' @ dec u @ '' -- v_'' @ dec v @ '' [label='' @ [CHR 0x22]
       @ CMRelementString (CMRrowToElement row) @ [CHR 0x22]
       @ '',style=bold,color=red];'' @ [CHR 0x0A]"

definition dot_column_line :: "int \<Rightarrow> int \<Rightarrow> nat \<Rightarrow> string" where
  "dot_column_line u v column =
     '' v_'' @ dec u @ '' -- v_'' @ dec v @ '' [label='' @ [CHR 0x22]
       @ CMRelementString (CMRcolumnToElement column) @ [CHR 0x22]
       @ ''];'' @ [CHR 0x0A]"

text \<open>
  One serializer loop: for each index below \<open>n\<close>, read the edge from \<open>edges\<close>, take its
  endpoints and print the line.
\<close>

definition print_edges ::
  "nat \<Rightarrow> int list option \<Rightarrow> CMR_GRAPH option \<Rightarrow> bool list option \<Rightarrow>
   (int \<Rightarrow> int \<Rightarrow> nat \<Rightarrow> string) \<Rightarrow> ('r, unit) prog" where
  "print_edges n edges graph edgesReversed line =
     for_loop 0 n (\<lambda>i _.
       andThen (array_read edges i) (\<lambda>e.
       andThen (edge_endpoints graph edgesReversed e) (\<lambda>(u, v).
       printf (line u v i)))) ()"

text \<open>Lines 106-199: the output of the graph in the requested format.\<close>

definition matrixToGraph_serialize ::
  "FileFormat \<Rightarrow> bool \<Rightarrow> CMR_CHRMAT \<Rightarrow> CMR_GRAPH option \<Rightarrow> int list option \<Rightarrow>
   int list option \<Rightarrow> bool list option \<Rightarrow> ('r, unit) prog" where
  "matrixToGraph_serialize outputFormat cographic matrix graph rowEdges columnEdges edgesReversed =
     (if outputFormat = FILEFORMAT_GRAPH_EDGELIST then
        (if cographic then
           andThen (print_edges (numColumns matrix) rowEdges graph edgesReversed edgelist_column_line) (\<lambda>_.
           print_edges (numRows matrix) columnEdges graph edgesReversed edgelist_row_line)
         else
           andThen (print_edges (numRows matrix) rowEdges graph edgesReversed edgelist_row_line) (\<lambda>_.
           print_edges (numColumns matrix) columnEdges graph edgesReversed edgelist_column_line))
      else if outputFormat = FILEFORMAT_GRAPH_DOT then
        andThen (puts ''graph G {'') (\<lambda>_.
        andThen (print_edges (numRows matrix) rowEdges graph edgesReversed dot_row_line) (\<lambda>_.
        andThen (print_edges (numColumns matrix) columnEdges graph edgesReversed dot_column_line) (\<lambda>_.
        puts ''}'')))
      else continue ())"

text \<open>Lines 201-205: the arrays and the graph are released.\<close>

definition matrixToGraph_release :: "world \<Rightarrow> bool list option \<Rightarrow> (CMR_ERROR, unit) prog" where
  "matrixToGraph_release w edgesReversed =
     andThen (if edgesReversed \<noteq> None then CMR_CALL (CMRfreeBlockArray w, ()) else continue ()) (\<lambda>_.
     andThen (CMR_CALL (CMRfreeBlockArray w, ())) (\<lambda>_.
     andThen (CMR_CALL (CMRfreeBlockArray w, ())) (\<lambda>_.
     CMR_CALL (CMRgraphFree w, ()))))"

text \<open>
  Lines 208-223: the elements of the violator. The result is the value of the variable
  \<^verbatim>\<open>submatrix\<close> afterwards.

  Modelled from the spec: \<^verbatim>\<open>CMRsubmatFree\<close> is a library function; the spec says of the
  submatrix only that it is freed explicitly. The call receives the address of the
  caller's pointer, and the program calls it once more, unconditionally, at line 238:
  the first call leaves the pointer \<^verbatim>\<open>NULL\<close>.
\<close>

definition print_indices :: "nat \<Rightarrow> nat list \<Rightarrow> ('r, unit) prog" where
  "print_indices n indices =
     for_loop 0 n (\<lambda>r _.
       andThen (array_read (Some indices) r) (\<lambda>x.
       printf ('' '' @ dec (int (x + 1))))) ()"

definition matrixToGraph_elements ::
  "world \<Rightarrow> CMR_SUBMAT option \<Rightarrow> bool \<Rightarrow> (CMR_ERROR, CMR_SUBMAT option) prog" where
  "matrixToGraph_elements w submatrix outputNonGraphicElements =
     (case submatrix of
        None \<Rightarrow> continue None
      | Some sm \<Rightarrow>
          if outputNonGraphicElements then
            andThen (printf (dec (int (sub_numRows sm)) @ '' rows:'')) (\<lambda>_.
            andThen (print_indices (sub_numRows sm) (sub_rows sm)) (\<lambda>_.
            andThen (printf ([CHR 0x0A] @ dec (int (sub_numColumns sm)) @ '' columns: '')) (\<lambda>_.
            andThen (print_indices (sub_numColumns sm) (sub_columns sm)) (\<lambda>_.
            andThen (printf [CHR 0x0A]) (\<lambda>_.
            andThen (CMR_CALL (CMRsubmatFree w, ())) (\<lambda>_.
            continue None))))))
          else continue (Some sm))"

text \<open>
  Lines 225-236: the violator as a matrix, printed in the format of the input. Line 229
  reads \<^verbatim>\<open>violatorMatrix->numRows\<close> for the diagnostic.
\<close>

definition matrixToGraph_violator ::
  "world \<Rightarrow> FileFormat \<Rightarrow> CMR_CHRMAT \<Rightarrow> CMR_SUBMAT option \<Rightarrow> bool \<Rightarrow> (CMR_ERROR, unit) prog" where
  "matrixToGraph_violator w inputFormat matrix submatrix outputNonGraphicMatrix =
     (case submatrix of
        None \<Rightarrow> continue ()
      | Some sm \<Rightarrow>
          if outputNonGraphicMatrix then
            andThen (CMR_CALL (CMRchrmatZoomSubmat w matrix sm)) (\<lambda>violatorMatrix.
            andThen (deref violatorMatrix) (\<lambda>_.
            andThen
              (if inputFormat = FILEFORMAT_MATRIX_DENSE then
                 CMR_CALL_stdout (CMRchrmatPrintDense w violatorMatrix (CHR ''0'') False)
               else if inputFormat = FILEFORMAT_MATRIX_SPARSE then
                 CMR_CALL_stdout (CMRchrmatPrintSparse w violatorMatrix)
               else continue ()) (\<lambda>_.
            CMR_CALL (CMRchrmatFree w, ()))))
          else continue ())"

text \<open>
  Lines 47-246. After the engine call, \<^verbatim>\<open>submatrix\<close> holds what the engine stored only if
  its address was passed; \<^verbatim>\<open>edgesReversed\<close> still holds its initial \<^verbatim>\<open>NULL\<close>.
\<close>

definition matrixToGraph ::
  "world \<Rightarrow> string \<Rightarrow> FileFormat \<Rightarrow> FileFormat \<Rightarrow> bool \<Rightarrow> bool \<Rightarrow> bool \<Rightarrow> bool \<Rightarrow>
   (CMR_ERROR, unit) prog" where
  "matrixToGraph w instanceFileName inputFormat outputFormat cographic
     outputNonGraphicElements outputNonGraphicMatrix printStats =
     (case open_instance w instanceFileName of
        None \<Rightarrow> ret CMR_ERROR_INPUT
      | Some instanceFile \<Rightarrow>
          andThen (matrixToGraph_read w instanceFile inputFormat) (\<lambda>matrix.
          andThen (matrixToGraph_test w matrix cographic
                     (outputNonGraphicElements \<or> outputNonGraphicMatrix) printStats) (\<lambda>t.
          let isCoGraphic = out_isCoGraphic t;
              graph = out_graph t;
              rowEdges = out_rowEdges t;
              columnEdges = out_columnEdges t;
              edgesReversed = None;
              submatrix = (if outputNonGraphicElements \<or> outputNonGraphicMatrix
                           then out_submatrix t else None)
          in
          andThen
            (if isCoGraphic then
               andThen (matrixToGraph_serialize outputFormat cographic matrix graph
                          rowEdges columnEdges edgesReversed) (\<lambda>_.
               matrixToGraph_release w edgesReversed)
             else continue ()) (\<lambda>_.
          andThen (matrixToGraph_elements w submatrix outputNonGraphicElements) (\<lambda>submatrix.
          andThen (matrixToGraph_violator w inputFormat matrix submatrix outputNonGraphicMatrix) (\<lambda>_.
          andThen (CMR_CALL (CMRsubmatFree w, ())) (\<lambda>_.
          andThen (CMR_CALL (CMRchrmatFree w, ())) (\<lambda>_.
          andThen (CMR_CALL (CMRfreeEnvironment w, ())) (\<lambda>_.
          ret CMR_OKAY)))))))))"

section \<open>Graph to matrix: \<^verbatim>\<open>graphToMatrix\<close>\<close>

text \<open>
  \<^verbatim>\<open>for (i = CMRgraphEdgesFirst(graph); CMRgraphEdgesValid(graph, i); i = CMRgraphEdgesNext(graph, i))\<close>
  with \<^verbatim>\<open>e = CMRgraphEdgesEdge(graph, i)\<close>: the body runs once for each edge of the graph,
  in the iterator's order. The iterator reads the graph, which is \<^verbatim>\<open>NULL\<close> when no edge
  list was read.
\<close>

fun for_edges :: "int list \<Rightarrow> (int \<Rightarrow> 's \<Rightarrow> ('r, 's) prog) \<Rightarrow> 's \<Rightarrow> ('r, 's) prog" where
  "for_edges [] body s = continue s"
| "for_edges (e # es) body s = andThen (body e s) (\<lambda>s'. for_edges es body s')"

definition for_graph_edges ::
  "CMR_GRAPH option \<Rightarrow> (int \<Rightarrow> 's \<Rightarrow> ('r, 's) prog) \<Rightarrow> 's \<Rightarrow> ('r, 's) prog" where
  "for_graph_edges graph body s = andThen (deref graph) (\<lambda>g. for_edges (graphEdges g) body s)"

text \<open>Writing an array element at a \<^verbatim>\<open>size_t\<close> index.\<close>

definition array_write :: "'a list \<Rightarrow> nat \<Rightarrow> 'a \<Rightarrow> ('r, 'a list) prog" where
  "array_write a i v = (if i < length a then continue (a[i := v]) else abort)"

text \<open>Lines 263-275: create the environment and read the edge list.\<close>

definition graphToMatrix_read ::
  "world \<Rightarrow> FILE \<Rightarrow> FileFormat \<Rightarrow> (CMR_ERROR, CMR_GRAPH option \<times> CMR_ELEMENT list option) prog" where
  "graphToMatrix_read w instanceFile inputFormat =
     andThen (CMR_CALL (CMRcreateEnvironment w, ())) (\<lambda>_.
     if inputFormat = FILEFORMAT_GRAPH_EDGELIST then
       CMR_CALL (CMRgraphCreateFromEdgeList w instanceFile)
     else continue (None, None))"

text \<open>Lines 278-288: count the edges tagged with a row and those tagged with a column.\<close>

definition count_step :: "CMR_ELEMENT list option \<Rightarrow> int \<Rightarrow> nat \<times> nat \<Rightarrow> ('r, nat \<times> nat) prog" where
  "count_step edgeElements e s =
     andThen (array_read_int edgeElements e) (\<lambda>element.
     (case s of (numForestEdges, numCoforestEdges) \<Rightarrow>
       (case element of
          RowElement _ \<Rightarrow> continue (numForestEdges + 1, numCoforestEdges)
        | ColumnElement _ \<Rightarrow> continue (numForestEdges, numCoforestEdges + 1)
        | NoElement \<Rightarrow> continue (numForestEdges, numCoforestEdges))))"

definition graphToMatrix_count ::
  "CMR_GRAPH option \<Rightarrow> CMR_ELEMENT list option \<Rightarrow> ('r, nat \<times> nat) prog" where
  "graphToMatrix_count graph edgeElements =
     for_graph_edges graph (count_step edgeElements) (0, 0)"

text \<open>
  Lines 291-298: an array of \<open>n\<close> edges is allocated (its contents are whatever
  the allocator left there) and every slot is set to \<open>-1\<close>.
\<close>

definition graphToMatrix_alloc :: "world \<Rightarrow> nat \<Rightarrow> (CMR_ERROR, int list) prog" where
  "graphToMatrix_alloc w n =
     andThen (CMR_CALL (CMRallocBlockArray w n)) (\<lambda>memory.
     for_loop 0 n (\<lambda>i a. array_write a i (- 1)) (map memory [0..<n]))"

text \<open>Lines 300-316: the scan that stores each tagged edge in the slot of its index.\<close>

definition scan_step ::
  "CMR_ELEMENT list option \<Rightarrow> nat \<Rightarrow> nat \<Rightarrow> int \<Rightarrow> int list \<times> int list \<Rightarrow>
   ('r, int list \<times> int list) prog" where
  "scan_step edgeElements numForestEdges numCoforestEdges e s =
     andThen (array_read_int edgeElements e) (\<lambda>element.
     (case s of (forestEdges, coforestEdges) \<Rightarrow>
       (case element of
          RowElement rowIndex \<Rightarrow>
            if rowIndex < numForestEdges then
              andThen (array_write forestEdges rowIndex e) (\<lambda>forestEdges'.
              continue (forestEdges', coforestEdges))
            else continue (forestEdges, coforestEdges)
        | ColumnElement columnIndex \<Rightarrow>
            if columnIndex < numCoforestEdges then
              andThen (array_write coforestEdges columnIndex e) (\<lambda>coforestEdges'.
              continue (forestEdges, coforestEdges'))
            else continue (forestEdges, coforestEdges)
        | NoElement \<Rightarrow> continue (forestEdges, coforestEdges))))"

definition graphToMatrix_scan ::
  "CMR_GRAPH option \<Rightarrow> CMR_ELEMENT list option \<Rightarrow> nat \<Rightarrow> nat \<Rightarrow> int list \<times> int list \<Rightarrow>
   ('r, int list \<times> int list) prog" where
  "graphToMatrix_scan graph edgeElements numForestEdges numCoforestEdges s =
     for_graph_edges graph (scan_step edgeElements numForestEdges numCoforestEdges) s"

text \<open>Lines 278-316 together: Forest Extraction.\<close>

definition graphToMatrix_extract ::
  "world \<Rightarrow> CMR_GRAPH option \<Rightarrow> CMR_ELEMENT list option \<Rightarrow>
   (CMR_ERROR, nat \<times> int list \<times> nat \<times> int list) prog" where
  "graphToMatrix_extract w graph edgeElements =
     andThen (graphToMatrix_count graph edgeElements) (\<lambda>(numForestEdges, numCoforestEdges).
     andThen (graphToMatrix_alloc w numForestEdges) (\<lambda>forestEdges.
     andThen (graphToMatrix_alloc w numCoforestEdges) (\<lambda>coforestEdges.
     andThen (graphToMatrix_scan graph edgeElements numForestEdges numCoforestEdges
                (forestEdges, coforestEdges)) (\<lambda>(forestEdges, coforestEdges).
     continue (numForestEdges, forestEdges, numCoforestEdges, coforestEdges)))))"

text \<open>
  Lines 318-332: the reconstruction engine is called with the address of \<^verbatim>\<open>matrix\<close> as its
  fourth argument and \<^verbatim>\<open>NULL\<close> as its third when \<^verbatim>\<open>cographic\<close> is set, and the other way
  round otherwise. Afterwards \<^verbatim>\<open>matrix\<close> holds what the engine stored through the
  argument that carried its address.
\<close>

definition graphToMatrix_compute ::
  "world \<Rightarrow> bool \<Rightarrow> CMR_GRAPH option \<Rightarrow> nat \<Rightarrow> int list \<Rightarrow> nat \<Rightarrow> int list \<Rightarrow>
   (CMR_ERROR, CMR_CHRMAT option \<times> bool) prog" where
  "graphToMatrix_compute w cographic graph numForestEdges forestEdges numCoforestEdges coforestEdges =
     (if cographic then
        andThen (CMR_CALL (CMRcomputeGraphicMatrix w
          \<lparr>in_graph = graph, in_third = False, in_fourth = True,
           in_numForestEdges = numForestEdges, in_forestEdges = forestEdges,
           in_numCoforestEdges = numCoforestEdges, in_coforestEdges = coforestEdges\<rparr>)) (\<lambda>r.
        continue (out_fourth r, out_isCorrectForest r))
      else
        andThen (CMR_CALL (CMRcomputeGraphicMatrix w
          \<lparr>in_graph = graph, in_third = True, in_fourth = False,
           in_numForestEdges = numForestEdges, in_forestEdges = forestEdges,
           in_numCoforestEdges = numCoforestEdges, in_coforestEdges = coforestEdges\<rparr>)) (\<lambda>r.
        continue (out_third r, out_isCorrectForest r)))"

text \<open>
  Lines 337-342: the matrix is printed in the output format; any other format meets
  \<^verbatim>\<open>assert(false)\<close>. The value of \<^verbatim>\<open>isCorrectForest\<close> is not read.
\<close>

definition graphToMatrix_print ::
  "world \<Rightarrow> FileFormat \<Rightarrow> CMR_CHRMAT option \<Rightarrow> (CMR_ERROR, unit) prog" where
  "graphToMatrix_print w outputFormat matrix =
     (if outputFormat = FILEFORMAT_MATRIX_DENSE then
        CMR_CALL_stdout (CMRchrmatPrintDense w matrix (CHR ''0'') False)
      else if outputFormat = FILEFORMAT_MATRIX_SPARSE then
        CMR_CALL_stdout (CMRchrmatPrintSparse w matrix)
      else abort)"

text \<open>Lines 252-354.\<close>

definition graphToMatrix ::
  "world \<Rightarrow> string \<Rightarrow> FileFormat \<Rightarrow> FileFormat \<Rightarrow> bool \<Rightarrow> (CMR_ERROR, unit) prog" where
  "graphToMatrix w instanceFileName inputFormat outputFormat cographic =
     (case open_instance w instanceFileName of
        None \<Rightarrow> ret CMR_ERROR_INPUT
      | Some instanceFile \<Rightarrow>
          andThen (graphToMatrix_read w instanceFile inputFormat) (\<lambda>(graph, edgeElements).
          andThen (graphToMatrix_extract w graph edgeElements)
            (\<lambda>(numForestEdges, forestEdges, numCoforestEdges, coforestEdges).
          andThen (graphToMatrix_compute w cographic graph numForestEdges forestEdges
                     numCoforestEdges coforestEdges) (\<lambda>(matrix, isCorrectForest).
          andThen (graphToMatrix_print w outputFormat matrix) (\<lambda>_.
          andThen (CMR_CALL (CMRchrmatFree w, ())) (\<lambda>_.
          andThen (CMR_CALL (CMRgraphFree w, ())) (\<lambda>_.
          andThen (CMR_CALL (CMRfreeEnvironment w, ())) (\<lambda>_.
          ret CMR_OKAY))))))))"

section \<open>The command line: \<^verbatim>\<open>printUsage\<close> and \<^verbatim>\<open>main\<close>\<close>

text \<open>The two exit codes of \<^verbatim>\<open>stdlib.h\<close>.\<close>

definition EXIT_SUCCESS :: int where
  "EXIT_SUCCESS = 0"

definition EXIT_FAILURE :: int where
  "EXIT_FAILURE = 1"

text \<open>Lines 26-41: the usage text; the value of the call is \<^verbatim>\<open>EXIT_FAILURE\<close>.\<close>

definition printUsage :: "string \<Rightarrow> ('r, int) prog" where
  "printUsage program =
     andThen (printf (''Usage: '' @ program @ '' [OPTION]... FILE'' @ [CHR 0x0A, CHR 0x0A])) (\<lambda>_.
     andThen (puts ''Converts graph to (co)graphic matrix or tests if matrix is (co)graphic, depending on input FILE.'') (\<lambda>_.
     andThen (puts ''Options:'') (\<lambda>_.
     andThen (puts (''  -i FORMAT  Format of input FILE; default: `dense'' @ [CHR 0x27] @ ''.'')) (\<lambda>_.
     andThen (puts (''  -o FORMAT  Format of output; default: `edgelist'' @ [CHR 0x27]
                    @ '' if input is a matrix and `dense'' @ [CHR 0x27] @ '' if input is a graph.'')) (\<lambda>_.
     andThen (puts ''  -t         Tests for being / converts to cographic matrix.'') (\<lambda>_.
     andThen (puts ''  -n         Output the elements of a minimal non-(co)graphic submatrix.'') (\<lambda>_.
     andThen (puts ''  -N         Output a minimal non-(co)graphic submatrix.'') (\<lambda>_.
     andThen (puts ''  -s         Print statistics about the computation to stderr.'') (\<lambda>_.
     andThen (puts ''Formats for matrices: dense, sparse'') (\<lambda>_.
     andThen (puts ''Formats for graphs: edgelist, dot (output only)'') (\<lambda>_.
     andThen (puts (''If FILE is `-'' @ [CHR 0x27] @ '', then the input will be read from stdin.'')) (\<lambda>_.
     continue EXIT_FAILURE))))))))))))"

text \<open>The local variables of \<^verbatim>\<open>main\<close> (lines 358-364).\<close>

record options =
  opt_inputFormat :: FileFormat
  opt_outputFormat :: FileFormat
  opt_transposed :: bool
  opt_instanceFileName :: "string option"
  opt_outputNonGraphicElements :: bool
  opt_outputNonGraphicMatrix :: bool
  opt_printStats :: bool

definition initial_options :: options where
  "initial_options =
     \<lparr>opt_inputFormat = FILEFORMAT_UNDEFINED, opt_outputFormat = FILEFORMAT_UNDEFINED,
      opt_transposed = False, opt_instanceFileName = None,
      opt_outputNonGraphicElements = False, opt_outputNonGraphicMatrix = False,
      opt_printStats = False\<rparr>"

text \<open>
  Lines 365-419: the loop over \<^verbatim>\<open>argv[1..argc)\<close>. The list holds the arguments from
  \<^verbatim>\<open>argv[a]\<close> on; \<^verbatim>\<open>a+1 < argc\<close> says that the rest is not empty, \<^verbatim>\<open>argv[a+1]\<close> is its head,
  and \<^verbatim>\<open>++a\<close> skips it.
\<close>

fun main_arguments :: "string \<Rightarrow> string list \<Rightarrow> options \<Rightarrow> (int, options) prog" where
  "main_arguments program [] opts = continue opts"
| "main_arguments program (arg # rest) opts =
     (if arg = ''-h'' then
        andThen (printUsage program) (\<lambda>_. ret EXIT_SUCCESS)
      else if arg = ''-t'' then
        main_arguments program rest (opts\<lparr>opt_transposed := True\<rparr>)
      else if arg = ''-n'' then
        main_arguments program rest (opts\<lparr>opt_outputNonGraphicElements := True\<rparr>)
      else if arg = ''-N'' then
        main_arguments program rest (opts\<lparr>opt_outputNonGraphicMatrix := True\<rparr>)
      else if arg = ''-s'' then
        main_arguments program rest (opts\<lparr>opt_printStats := True\<rparr>)
      else if arg = ''-i'' \<and> rest \<noteq> [] then
        (if hd rest = ''dense'' then
           main_arguments program (tl rest) (opts\<lparr>opt_inputFormat := FILEFORMAT_MATRIX_DENSE\<rparr>)
         else if hd rest = ''sparse'' then
           main_arguments program (tl rest) (opts\<lparr>opt_inputFormat := FILEFORMAT_MATRIX_SPARSE\<rparr>)
         else if hd rest = ''edgelist'' then
           main_arguments program (tl rest) (opts\<lparr>opt_inputFormat := FILEFORMAT_GRAPH_EDGELIST\<rparr>)
         else
           andThen (printf (''Error: unknown input file format <'' @ hd rest @ ''>.''
                            @ [CHR 0x0A, CHR 0x0A])) (\<lambda>_.
           andThen (printUsage program) (\<lambda>code. ret code)))
      else if arg = ''-o'' \<and> rest \<noteq> [] then
        (if hd rest = ''dense'' then
           main_arguments program (tl rest) (opts\<lparr>opt_outputFormat := FILEFORMAT_MATRIX_DENSE\<rparr>)
         else if hd rest = ''sparse'' then
           main_arguments program (tl rest) (opts\<lparr>opt_outputFormat := FILEFORMAT_MATRIX_SPARSE\<rparr>)
         else if hd rest = ''edgelist'' then
           main_arguments program (tl rest) (opts\<lparr>opt_outputFormat := FILEFORMAT_GRAPH_EDGELIST\<rparr>)
         else if hd rest = ''dot'' then
           main_arguments program (tl rest) (opts\<lparr>opt_outputFormat := FILEFORMAT_GRAPH_DOT\<rparr>)
         else
           andThen (printf (''Error: unknown output format <'' @ hd rest @ ''>.''
                            @ [CHR 0x0A, CHR 0x0A])) (\<lambda>_.
           andThen (printUsage program) (\<lambda>code. ret code)))
      else
        (case opt_instanceFileName opts of
           None \<Rightarrow> main_arguments program rest (opts\<lparr>opt_instanceFileName := Some arg\<rparr>)
         | Some instanceFileName \<Rightarrow>
             andThen (printf (''Error: Two input files <'' @ instanceFileName
                              @ ''> and <'' @ arg @ ''> specified.'' @ [CHR 0x0A, CHR 0x0A])) (\<lambda>_.
             andThen (printUsage program) (\<lambda>code. ret code))))"

text \<open>Lines 427-459: the defaults of the two formats, and the pairs that are refused.\<close>

definition main_formats :: "string \<Rightarrow> options \<Rightarrow> (int, options) prog" where
  "main_formats program opts =
     (if opt_inputFormat opts = FILEFORMAT_UNDEFINED then
        (if opt_outputFormat opts = FILEFORMAT_UNDEFINED then
           continue (opts\<lparr>opt_inputFormat := FILEFORMAT_MATRIX_DENSE,
                          opt_outputFormat := FILEFORMAT_GRAPH_EDGELIST\<rparr>)
         else if opt_outputFormat opts = FILEFORMAT_MATRIX_DENSE
                 \<or> opt_outputFormat opts = FILEFORMAT_MATRIX_SPARSE then
           continue (opts\<lparr>opt_inputFormat := FILEFORMAT_GRAPH_EDGELIST\<rparr>)
         else continue (opts\<lparr>opt_inputFormat := FILEFORMAT_MATRIX_DENSE\<rparr>))
      else if opt_inputFormat opts = FILEFORMAT_MATRIX_DENSE
              \<or> opt_inputFormat opts = FILEFORMAT_MATRIX_SPARSE then
        (if opt_outputFormat opts = FILEFORMAT_UNDEFINED then
           continue (opts\<lparr>opt_outputFormat := FILEFORMAT_GRAPH_EDGELIST\<rparr>)
         else if opt_outputFormat opts = FILEFORMAT_MATRIX_DENSE
                 \<or> opt_outputFormat opts = FILEFORMAT_MATRIX_SPARSE then
           andThen (puts (''Either input or output must be a graph.'' @ [CHR 0x0A])) (\<lambda>_.
           andThen (printUsage program) (\<lambda>code. ret code))
         else continue opts)
      else
        (if opt_outputFormat opts = FILEFORMAT_UNDEFINED then
           continue (opts\<lparr>opt_outputFormat := FILEFORMAT_MATRIX_DENSE\<rparr>)
         else if \<not> (opt_outputFormat opts = FILEFORMAT_MATRIX_DENSE
                     \<or> opt_outputFormat opts = FILEFORMAT_MATRIX_SPARSE) then
           andThen (puts (''Either input or output must be a matrix.'' @ [CHR 0x0A])) (\<lambda>_.
           andThen (printUsage program) (\<lambda>code. ret code))
         else continue opts))"

text \<open>Lines 358-459: everything \<^verbatim>\<open>main\<close> does before it starts a conversion.\<close>

definition main_options :: "string \<Rightarrow> string list \<Rightarrow> (int, options) prog" where
  "main_options program arguments =
     andThen (main_arguments program arguments initial_options) (\<lambda>opts.
     andThen
       (if opt_instanceFileName opts = None then
          andThen (puts (''No input file specified.'' @ [CHR 0x0A])) (\<lambda>_.
          andThen (printUsage program) (\<lambda>code. ret code))
        else continue ()) (\<lambda>_.
     main_formats program opts))"

text \<open>
  A call of a function that returns a value: the value it returned becomes the value of
  the call; the text it wrote stays.
\<close>

definition call :: "('q, 'x) prog \<Rightarrow> ('r, 'q) prog" where
  "call body =
     (case body of
        (Return q, out) \<Rightarrow> (Continue q, out)
      | (Continue _, out) \<Rightarrow> (Abort, out)
      | (Abort, out) \<Rightarrow> (Abort, out))"

text \<open>
  Lines 461-468: the conversion selected by the input format. Both conversions begin by
  reading the string \<^verbatim>\<open>instanceFileName\<close> points to.
\<close>

definition main_convert :: "world \<Rightarrow> options \<Rightarrow> (int, CMR_ERROR) prog" where
  "main_convert w opts =
     andThen (deref (opt_instanceFileName opts)) (\<lambda>instanceFileName.
     if opt_inputFormat opts = FILEFORMAT_MATRIX_DENSE
        \<or> opt_inputFormat opts = FILEFORMAT_MATRIX_SPARSE then
       call (matrixToGraph w instanceFileName (opt_inputFormat opts)
               (opt_outputFormat opts) (opt_transposed opts) (opt_outputNonGraphicElements opts)
               (opt_outputNonGraphicMatrix opts) (opt_printStats opts))
     else
       call (graphToMatrix w instanceFileName (opt_inputFormat opts)
               (opt_outputFormat opts) (opt_transposed opts)))"

text \<open>Lines 470-480: the exit code for the conversion's status.\<close>

definition main_exit :: "CMR_ERROR \<Rightarrow> (int, 'a) prog" where
  "main_exit error =
     (case error of
        CMR_ERROR_INPUT \<Rightarrow> andThen (puts ''Input error.'') (\<lambda>_. ret EXIT_FAILURE)
      | CMR_ERROR_MEMORY \<Rightarrow> andThen (puts ''Memory error.'') (\<lambda>_. ret EXIT_FAILURE)
      | _ \<Rightarrow> ret EXIT_SUCCESS)"

text \<open>
  Lines 356-481. \<open>program\<close> is \<^verbatim>\<open>argv[0]\<close> and \<open>arguments\<close> are \<^verbatim>\<open>argv[1..argc)\<close>. The
  result is the exit code \<^verbatim>\<open>main\<close> returns and the text on \<^verbatim>\<open>stdout\<close>.
\<close>

definition main :: "world \<Rightarrow> string \<Rightarrow> string list \<Rightarrow> (int, unit) prog" where
  "main w program arguments =
     andThen (main_options program arguments) (\<lambda>opts.
     andThen (main_convert w opts) (\<lambda>error.
     main_exit error))"

section \<open>The command line, described by its arguments\<close>

text \<open>
  A second description of the command line, for comparison with \<open>main_options\<close>: it
  follows the usage text (lines 28-39) and the spec's CLI surface (one positional input
  path; \<^verbatim>\<open>-i FORMAT\<close> and \<^verbatim>\<open>-o FORMAT\<close> among dense, sparse, edgelist and dot, dot for
  output only; the flags \<^verbatim>\<open>-t\<close>, \<^verbatim>\<open>-n\<close>, \<^verbatim>\<open>-N\<close>, \<^verbatim>\<open>-s\<close> and \<^verbatim>\<open>-h\<close>) and is not written from the
  loop of \<^verbatim>\<open>main\<close>. The words of the command line are grouped into arguments first:
  \<^verbatim>\<open>-i\<close> and \<^verbatim>\<open>-o\<close> take the word that follows them, and every word that is not an option
  is a file name (so is a final \<^verbatim>\<open>-i\<close> or \<^verbatim>\<open>-o\<close> with no word after it).
\<close>

datatype argument =
    Help
  | Transposed
  | Elements
  | Violator
  | Statistics
  | Input_format string
  | Output_format string
  | File_name string

definition single_argument :: "string \<Rightarrow> argument" where
  "single_argument a =
     (if a = ''-h'' then Help
      else if a = ''-t'' then Transposed
      else if a = ''-n'' then Elements
      else if a = ''-N'' then Violator
      else if a = ''-s'' then Statistics
      else File_name a)"

fun arguments_of :: "string list \<Rightarrow> argument list" where
  "arguments_of [] = []"
| "arguments_of [a] = [single_argument a]"
| "arguments_of (a # b # rest) =
     (if a = ''-i'' then Input_format b # arguments_of rest
      else if a = ''-o'' then Output_format b # arguments_of rest
      else single_argument a # arguments_of (b # rest))"

definition format_named :: "string \<Rightarrow> FileFormat" where
  "format_named f =
     (if f = ''dense'' then FILEFORMAT_MATRIX_DENSE
      else if f = ''sparse'' then FILEFORMAT_MATRIX_SPARSE
      else if f = ''edgelist'' then FILEFORMAT_GRAPH_EDGELIST
      else if f = ''dot'' then FILEFORMAT_GRAPH_DOT
      else FILEFORMAT_UNDEFINED)"

definition is_matrix_format :: "FileFormat \<Rightarrow> bool" where
  "is_matrix_format f = (f = FILEFORMAT_MATRIX_DENSE \<or> f = FILEFORMAT_MATRIX_SPARSE)"

text \<open>
  Reading the arguments from the left stops at the first \<^verbatim>\<open>-h\<close>, at the first format name
  that is not known (for \<^verbatim>\<open>-i\<close>: not dense, sparse or edgelist), or at a second file name.
\<close>

definition ends_parsing :: "bool \<Rightarrow> argument \<Rightarrow> bool" where
  "ends_parsing file_seen a =
     (case a of
        Help \<Rightarrow> True
      | Input_format f \<Rightarrow> format_named f = FILEFORMAT_UNDEFINED \<or> format_named f = FILEFORMAT_GRAPH_DOT
      | Output_format f \<Rightarrow> format_named f = FILEFORMAT_UNDEFINED
      | File_name _ \<Rightarrow> file_seen
      | _ \<Rightarrow> False)"

definition is_file_name :: "argument \<Rightarrow> bool" where
  "is_file_name a = (case a of File_name _ \<Rightarrow> True | _ \<Rightarrow> False)"

fun first_end :: "bool \<Rightarrow> argument list \<Rightarrow> argument option" where
  "first_end file_seen [] = None"
| "first_end file_seen (a # as) =
     (if ends_parsing file_seen a then Some a
      else first_end (file_seen \<or> is_file_name a) as)"

text \<open>The formats and the file names given, in the order of the command line.\<close>

definition input_formats :: "argument list \<Rightarrow> FileFormat list" where
  "input_formats as = concat (map (\<lambda>a. case a of Input_format f \<Rightarrow> [format_named f] | _ \<Rightarrow> []) as)"

definition output_formats :: "argument list \<Rightarrow> FileFormat list" where
  "output_formats as = concat (map (\<lambda>a. case a of Output_format f \<Rightarrow> [format_named f] | _ \<Rightarrow> []) as)"

definition file_names :: "argument list \<Rightarrow> string list" where
  "file_names as = concat (map (\<lambda>a. case a of File_name n \<Rightarrow> [n] | _ \<Rightarrow> []) as)"

text \<open>
  What a command line asks for: the usage text (\<^verbatim>\<open>-h\<close>), nothing the program accepts, or
  a conversion of the named file with the two formats and the four flags. A command line
  is accepted when no argument stops the reading, a file is named, and, with the last
  format given for each side and the defaults for a side that is not given (a matrix on
  one side makes the other side's default a graph format, and the other way round; dense
  to edgelist when neither is given), exactly one of the two formats is a matrix format.
\<close>

datatype invocation =
    Usage_requested
  | Usage_error
  | Conversion string FileFormat FileFormat bool bool bool bool

definition command_line :: "string list \<Rightarrow> invocation" where
  "command_line arguments =
     (let as = arguments_of arguments in
      case first_end False as of
        Some a \<Rightarrow> if a = Help then Usage_requested else Usage_error
      | None \<Rightarrow>
          (case file_names as of
             [] \<Rightarrow> Usage_error
           | name # _ \<Rightarrow>
               let given_input = last (FILEFORMAT_UNDEFINED # input_formats as);
                   given_output = last (FILEFORMAT_UNDEFINED # output_formats as);
                   input = (if given_input \<noteq> FILEFORMAT_UNDEFINED then given_input
                            else if is_matrix_format given_output then FILEFORMAT_GRAPH_EDGELIST
                            else FILEFORMAT_MATRIX_DENSE);
                   output = (if given_output \<noteq> FILEFORMAT_UNDEFINED then given_output
                             else if is_matrix_format input then FILEFORMAT_GRAPH_EDGELIST
                             else FILEFORMAT_MATRIX_DENSE)
               in if is_matrix_format input = is_matrix_format output then Usage_error
                  else Conversion name input output (Transposed \<in> set as) (Elements \<in> set as)
                         (Violator \<in> set as) (Statistics \<in> set as)))"

section \<open>Vocabulary of the proofs\<close>

text \<open>
  The condition \<^verbatim>\<open>edgesReversed && edgesReversed[e]\<close> of the serializer, where the read
  is inside the array (\<open>flag_covers\<close>), and the text one serializer loop writes.
\<close>

definition flag_covers :: "bool list option \<Rightarrow> int \<Rightarrow> bool" where
  "flag_covers edgesReversed e =
     (case edgesReversed of None \<Rightarrow> True | Some flags \<Rightarrow> 0 \<le> e \<and> nat e < length flags)"

definition flag_set :: "bool list option \<Rightarrow> int \<Rightarrow> bool" where
  "flag_set edgesReversed e =
     (case edgesReversed of None \<Rightarrow> False | Some flags \<Rightarrow> flags ! nat e)"

definition lines_of ::
  "CMR_GRAPH \<Rightarrow> bool list option \<Rightarrow> (int \<Rightarrow> int \<Rightarrow> nat \<Rightarrow> string) \<Rightarrow> int list \<Rightarrow> nat \<Rightarrow> string" where
  "lines_of g edgesReversed line es n =
     concat (map (\<lambda>i. if flag_set edgesReversed (es ! i)
                       then line (graphEdgeV g (es ! i)) (graphEdgeU g (es ! i)) i
                       else line (graphEdgeU g (es ! i)) (graphEdgeV g (es ! i)) i) [0..<n])"

text \<open>
  The variables of \<^verbatim>\<open>main\<close> after a list of arguments none of which stops the reading,
  and the outcome of the loop over the arguments.
\<close>

definition after_arguments :: "options \<Rightarrow> argument list \<Rightarrow> options" where
  "after_arguments opts as =
     opts\<lparr>opt_inputFormat := last (opt_inputFormat opts # input_formats as),
          opt_outputFormat := last (opt_outputFormat opts # output_formats as),
          opt_transposed := (opt_transposed opts \<or> Transposed \<in> set as),
          opt_instanceFileName :=
            (case opt_instanceFileName opts of
               Some n \<Rightarrow> Some n
             | None \<Rightarrow> (case file_names as of [] \<Rightarrow> None | n # _ \<Rightarrow> Some n)),
          opt_outputNonGraphicElements := (opt_outputNonGraphicElements opts \<or> Elements \<in> set as),
          opt_outputNonGraphicMatrix := (opt_outputNonGraphicMatrix opts \<or> Violator \<in> set as),
          opt_printStats := (opt_printStats opts \<or> Statistics \<in> set as)\<rparr>"

definition parsed :: "bool \<Rightarrow> options \<Rightarrow> argument list \<Rightarrow> (int, options) flow" where
  "parsed file_seen opts as =
     (case first_end file_seen as of
        Some a \<Rightarrow> Return (if a = Help then EXIT_SUCCESS else EXIT_FAILURE)
      | None \<Rightarrow> Continue (after_arguments opts as))"

section \<open>Example inputs\<close>

text \<open>
  A world in which every file opens and every library call succeeds: the parsers return
  the given matrix and the given tagged graph, the engines return the given results, and
  the printers write a dense grid (dimensions, then one line per row) or a sparse header.
\<close>

definition example_zoom :: "CMR_CHRMAT \<Rightarrow> CMR_SUBMAT \<Rightarrow> CMR_ERROR \<times> CMR_CHRMAT option" where
  "example_zoom matrix sm =
     (CMR_OKAY,
      Some \<lparr>numRows = sub_numRows sm, numColumns = sub_numColumns sm,
            entries = map (\<lambda>r. map (\<lambda>c. entries matrix ! r ! c) (sub_columns sm)) (sub_rows sm)\<rparr>)"

definition example_dense :: "CMR_CHRMAT option \<Rightarrow> char \<Rightarrow> bool \<Rightarrow> CMR_ERROR \<times> string" where
  "example_dense matrix zeroChar header =
     (case matrix of
        None \<Rightarrow> (CMR_ERROR_OTHER 0, [])
      | Some m \<Rightarrow>
          (CMR_OKAY,
           dec (int (numRows m)) @ '' '' @ dec (int (numColumns m)) @ [CHR 0x0A]
           @ concat (map (\<lambda>row. concat (map (\<lambda>x. '' '' @ (if x = 0 then [zeroChar] else dec x)) row)
                                 @ [CHR 0x0A]) (entries m))))"

definition example_sparse :: "CMR_CHRMAT option \<Rightarrow> CMR_ERROR \<times> string" where
  "example_sparse matrix =
     (case matrix of
        None \<Rightarrow> (CMR_ERROR_OTHER 0, [])
      | Some m \<Rightarrow>
          (CMR_OKAY,
           dec (int (numRows m)) @ '' '' @ dec (int (numColumns m)) @ '' ''
           @ dec (int (length (filter (\<lambda>x. x \<noteq> 0) (concat (entries m))))) @ [CHR 0x0A]))"

definition example_world ::
  "CMR_CHRMAT \<Rightarrow> test_output \<Rightarrow> CMR_GRAPH \<Rightarrow> CMR_ELEMENT list \<Rightarrow> compute_output \<Rightarrow> world" where
  "example_world matrix t graph edgeElements c =
     \<lparr>fopen = (\<lambda>name. Some []),
      stdin = [],
      CMRcreateEnvironment = CMR_OKAY,
      CMRfreeEnvironment = CMR_OKAY,
      CMRchrmatCreateFromDenseStream = (\<lambda>file. (CMR_OKAY, matrix)),
      CMRchrmatCreateFromSparseStream = (\<lambda>file. (CMR_OKAY, matrix)),
      CMRstatsGraphicInit = CMR_OKAY,
      CMRstatsGraphicPrint = CMR_OKAY,
      CMRtestGraphicMatrix = (\<lambda>m wantSubmatrix. (CMR_OKAY, t)),
      CMRtestCographicMatrix = (\<lambda>m wantSubmatrix. (CMR_OKAY, t)),
      CMRfreeBlockArray = CMR_OKAY,
      CMRgraphFree = CMR_OKAY,
      CMRsubmatFree = CMR_OKAY,
      CMRchrmatFree = CMR_OKAY,
      CMRchrmatZoomSubmat = example_zoom,
      CMRchrmatPrintDense = example_dense,
      CMRchrmatPrintSparse = example_sparse,
      CMRgraphCreateFromEdgeList = (\<lambda>file. (CMR_OKAY, Some graph, Some edgeElements)),
      CMRallocBlockArray = (\<lambda>n. (CMR_OKAY, (\<lambda>i. 0))),
      CMRcomputeGraphicMatrix = (\<lambda>i. (CMR_OKAY, c))\<rparr>"

definition graph_of :: "(int \<times> int) list \<Rightarrow> CMR_GRAPH" where
  "graph_of ends =
     \<lparr>graphEdges = map int [0..<length ends],
      graphEdgeU = (\<lambda>e. fst (ends ! nat e)),
      graphEdgeV = (\<lambda>e. snd (ends ! nat e))\<rparr>"

text \<open>
  The 2 by 2 identity matrix and a graph for it: the rows are the forest edges
  \<open>0 = (0, 1)\<close> and \<open>1 = (1, 2)\<close>, and each column closes a cycle with its own row, so
  its edge is parallel to that row's edge.
\<close>

definition identity2 :: CMR_CHRMAT where
  "identity2 = \<lparr>numRows = 2, numColumns = 2, entries = [[1, 0], [0, 1]]\<rparr>"

definition identity2_test :: test_output where
  "identity2_test =
     \<lparr>out_isCoGraphic = True,
      out_graph = Some (graph_of [(0, 1), (1, 2), (0, 1), (1, 2)]),
      out_rowEdges = Some [0, 1],
      out_columnEdges = Some [2, 3],
      out_submatrix = None\<rparr>"

definition no_graph :: CMR_GRAPH where
  "no_graph = graph_of []"

definition no_compute :: compute_output where
  "no_compute = \<lparr>out_third = None, out_fourth = None, out_isCorrectForest = False\<rparr>"

text \<open>
  A cographic 2 by 2 matrix and a graph for it. In the cographic case the forest edges
  belong to the columns: column 1 is edge \<open>0 = (0, 1)\<close>, column 2 is edge \<open>1 = (1, 2)\<close>.
  Row 1 has both columns in its cycle, so its edge \<open>2 = (2, 0)\<close> closes the triangle;
  row 2 has only column 2, so its edge \<open>3 = (1, 2)\<close> is parallel to that column's edge.
  The engine stores the columns' edges in \<^verbatim>\<open>rowEdges\<close> and the rows' edges in
  \<^verbatim>\<open>columnEdges\<close>, which is what the edge-list loops of lines 108-136 read.
\<close>

definition triangle2 :: CMR_CHRMAT where
  "triangle2 = \<lparr>numRows = 2, numColumns = 2, entries = [[1, 1], [0, 1]]\<rparr>"

definition triangle2_test :: test_output where
  "triangle2_test =
     \<lparr>out_isCoGraphic = True,
      out_graph = Some (graph_of [(0, 1), (1, 2), (2, 0), (1, 2)]),
      out_rowEdges = Some [0, 1],
      out_columnEdges = Some [2, 3],
      out_submatrix = None\<rparr>"

text \<open>The cographic 1 by 2 matrix with the triangle as its graph: two columns, one row.\<close>

definition wide :: CMR_CHRMAT where
  "wide = \<lparr>numRows = 1, numColumns = 2, entries = [[1, 1]]\<rparr>"

definition wide_test :: test_output where
  "wide_test =
     \<lparr>out_isCoGraphic = True,
      out_graph = Some (graph_of [(0, 1), (1, 2), (2, 0)]),
      out_rowEdges = Some [0, 1],
      out_columnEdges = Some [2],
      out_submatrix = None\<rparr>"

text \<open>
  The 3 by 4 matrix of the Fano matroid is not graphic, and every proper submatrix of it
  is: the violator is the whole matrix.
\<close>

definition fano :: CMR_CHRMAT where
  "fano = \<lparr>numRows = 3, numColumns = 4, entries = [[1, 1, 0, 1], [1, 0, 1, 1], [0, 1, 1, 1]]\<rparr>"

definition fano_test :: test_output where
  "fano_test =
     \<lparr>out_isCoGraphic = False,
      out_graph = None,
      out_rowEdges = None,
      out_columnEdges = None,
      out_submatrix = Some \<lparr>sub_numRows = 3, sub_rows = [0, 1, 2],
                             sub_numColumns = 4, sub_columns = [0, 1, 2, 3]\<rparr>\<rparr>"

text \<open>
  A tagged triangle as the edge-list parser returns it: edge \<open>0 = (0, 1)\<close> is tagged
  \<open>r2\<close>, edge \<open>1 = (1, 2)\<close> is tagged \<open>c1\<close> and edge \<open>2 = (2, 0)\<close> is tagged \<open>r1\<close>. The
  reconstruction engine of the example stores a matrix through either argument and
  reports \<^verbatim>\<open>isCorrectForest = false\<close>.
\<close>

definition tagged_triangle :: CMR_GRAPH where
  "tagged_triangle = graph_of [(0, 1), (1, 2), (2, 0)]"

definition tagged_triangle_elements :: "CMR_ELEMENT list" where
  "tagged_triangle_elements = [RowElement 1, ColumnElement 0, RowElement 0]"

definition tagged_triangle_compute :: compute_output where
  "tagged_triangle_compute =
     \<lparr>out_third = Some \<lparr>numRows = 2, numColumns = 1, entries = [[1], [1]]\<rparr>,
      out_fourth = Some \<lparr>numRows = 1, numColumns = 2, entries = [[1, 1]]\<rparr>,
      out_isCorrectForest = False\<rparr>"

definition graph_example_world :: world where
  "graph_example_world =
     example_world identity2 identity2_test tagged_triangle tagged_triangle_elements
       tagged_triangle_compute"

text \<open>The same world with no file that can be opened.\<close>

definition unreadable_world :: world where
  "unreadable_world =
     (example_world identity2 identity2_test no_graph [] no_compute)\<lparr>fopen := (\<lambda>name. None)\<rparr>"

section \<open>Control flow and loops\<close>

lemma andThen_continue [simp]: "andThen (continue x) f = f x"
  by (simp add: andThen_def continue_def split: prod.splits)

lemma andThen_printf : "andThen (printf s) f = (fst (f ()), s @ snd (f ()))"
  by (simp add: andThen_def printf_def split: prod.splits)

lemma andThen_Continue : "andThen (Continue x, out) f = (fst (f x), out @ snd (f x))"
  by (simp add: andThen_def split: prod.splits)

lemma andThen_Return : "andThen (Return r, out) f = (Return r, out)"
  by (simp add: andThen_def)

lemma andThen_Abort : "andThen (Abort, out) f = (Abort, out)"
  by (simp add: andThen_def)

lemma andThen_ret: "andThen (ret r) f = ret r"
  by (simp add: andThen_def ret_def)

lemma andThen_abort: "andThen abort f = abort"
  by (simp add: andThen_def abort_def)

lemma for_loop_print:
  assumes "\<And>i. i0 \<le> i \<Longrightarrow> i < n \<Longrightarrow> body i () = (Continue (), f i)"
  shows "for_loop i0 n body () = (Continue (), concat (map f [i0..<n]))"
  using assms
proof (induction i0 n body "()" rule: for_loop.induct)
  case (1 i n body)
  show ?case
  proof (cases "i < n")
    case True
    have "for_loop (Suc i) n body () = (Continue (), concat (map f [Suc i..<n]))"
      using 1 True by simp
    then show ?thesis
      using True 1(2)[of i] by (simp add: for_loop.simps[of i] andThen_Continue upt_conv_Cons)
  next
    case False
    then show ?thesis by (simp add: for_loop.simps[of i] continue_def)
  qed
qed

lemma edge_endpoints_eq:
  assumes "flag_covers edgesReversed e"
  shows "edge_endpoints (Some g) edgesReversed e =
           continue (if flag_set edgesReversed e then (graphEdgeV g e, graphEdgeU g e)
                     else (graphEdgeU g e, graphEdgeV g e))"
  using assms
  by (simp add: edge_endpoints_def CMRgraphEdgeU_def CMRgraphEdgeV_def deref_def
      array_read_int_def array_read_def flag_covers_def flag_set_def split: option.splits)

lemma print_edges_eq:
  assumes "n \<le> length es" and "\<And>i. i < n \<Longrightarrow> flag_covers edgesReversed (es ! i)"
  shows "print_edges n (Some es) (Some g) edgesReversed line =
           (Continue (), lines_of g edgesReversed line es n)"
  unfolding print_edges_def lines_of_def
proof (rule for_loop_print)
  fix i assume "i < n"
  then have "i < length es" and "flag_covers edgesReversed (es ! i)"
    using assms by auto
  then show "andThen (array_read (Some es) i)
          (\<lambda>e. andThen (edge_endpoints (Some g) edgesReversed e) (\<lambda>(u, v). printf (line u v i))) =
         (Continue (),
          if flag_set edgesReversed (es ! i) then line (graphEdgeV g (es ! i)) (graphEdgeU g (es ! i)) i
          else line (graphEdgeU g (es ! i)) (graphEdgeV g (es ! i)) i)"
    by (simp add: array_read_def edge_endpoints_eq printf_def)
qed

lemma serialize_edgelist:
  assumes "numRows m \<le> length (if cographic then ce else re)"
    and "numColumns m \<le> length (if cographic then re else ce)"
    and "\<And>e. e \<in> set re \<union> set ce \<Longrightarrow> flag_covers edgesReversed e"
  shows "matrixToGraph_serialize FILEFORMAT_GRAPH_EDGELIST cographic m (Some g) (Some re) (Some ce)
           edgesReversed =
         (Continue (),
          if cographic
          then lines_of g edgesReversed edgelist_column_line re (numColumns m)
               @ lines_of g edgesReversed edgelist_row_line ce (numRows m)
          else lines_of g edgesReversed edgelist_row_line re (numRows m)
               @ lines_of g edgesReversed edgelist_column_line ce (numColumns m))"
proof (cases cographic)
  case True
  have r: "\<And>i. i < numColumns m \<Longrightarrow> flag_covers edgesReversed (re ! i)"
    using assms True by simp
  have c: "\<And>i. i < numRows m \<Longrightarrow> flag_covers edgesReversed (ce ! i)"
    using assms True by simp
  show ?thesis
    using True assms(1,2)
    by (simp add: matrixToGraph_serialize_def print_edges_eq r c andThen_Continue)
next
  case False
  have r: "\<And>i. i < numRows m \<Longrightarrow> flag_covers edgesReversed (re ! i)"
    using assms False by simp
  have c: "\<And>i. i < numColumns m \<Longrightarrow> flag_covers edgesReversed (ce ! i)"
    using assms False by simp
  show ?thesis
    using False assms(1,2)
    by (simp add: matrixToGraph_serialize_def print_edges_eq r c andThen_Continue)
qed

lemma serialize_dot:
  assumes "numRows m \<le> length re"
    and "numColumns m \<le> length ce"
    and "\<And>e. e \<in> set re \<union> set ce \<Longrightarrow> flag_covers edgesReversed e"
  shows "matrixToGraph_serialize FILEFORMAT_GRAPH_DOT cographic m (Some g) (Some re) (Some ce)
           edgesReversed =
         (Continue (),
          ''graph G {'' @ [CHR 0x0A]
          @ lines_of g edgesReversed dot_row_line re (numRows m)
          @ lines_of g edgesReversed dot_column_line ce (numColumns m)
          @ ''}'' @ [CHR 0x0A])"
proof -
  have r: "\<And>i. i < numRows m \<Longrightarrow> flag_covers edgesReversed (re ! i)"
    using assms by simp
  have c: "\<And>i. i < numColumns m \<Longrightarrow> flag_covers edgesReversed (ce ! i)"
    using assms by simp
  show ?thesis
    using assms(1,2)
    by (simp add: matrixToGraph_serialize_def print_edges_eq r c andThen_Continue andThen_printf
        puts_def printf_def)
qed

lemma serialize_dot_direction:
  "matrixToGraph_serialize FILEFORMAT_GRAPH_DOT True m graph rowEdges columnEdges edgesReversed =
   matrixToGraph_serialize FILEFORMAT_GRAPH_DOT False m graph rowEdges columnEdges edgesReversed"
  by (simp add: matrixToGraph_serialize_def)

lemma row_line_flag:
  "(if b then edgelist_row_line v u i else edgelist_row_line u v i) =
     dec (if b then v else u) @ '' '' @ dec (if b then u else v) @ '' r'' @ dec (int (i + 1)) @ [CHR 0x0A]"
  by (simp add: edgelist_row_line_def)

lemma column_line_flag:
  "(if b then edgelist_column_line v u j else edgelist_column_line u v j) =
     dec (if b then v else u) @ '' '' @ dec (if b then u else v) @ '' c'' @ dec (int (j + 1)) @ [CHR 0x0A]"
  by (simp add: edgelist_column_line_def)

lemma fst_andThen:
  "fst (andThen m f) = (case fst m of Continue x \<Rightarrow> fst (f x) | Return r \<Rightarrow> Return r | Abort \<Rightarrow> Abort)"
  by (cases m; cases "fst m") (auto simp: andThen_def split: prod.splits)

lemma snd_andThen:
  "snd (andThen m f) = snd m @ (case fst m of Continue x \<Rightarrow> snd (f x) | Return r \<Rightarrow> [] | Abort \<Rightarrow> [])"
  by (cases m; cases "fst m") (auto simp: andThen_def split: prod.splits)

lemma snd_CMR_CALL [simp]: "snd (CMR_CALL c) = []"
  by (simp add: CMR_CALL_def continue_def ret_def)

lemma snd_continue [simp]: "snd (continue x) = []"
  by (simp add: continue_def)

lemma snd_deref [simp]: "snd (deref p) = []"
  by (simp add: deref_def continue_def abort_def split: option.splits)

lemma snd_matrixToGraph_read: "snd (matrixToGraph_read w file inputFormat) = []"
  by (simp add: matrixToGraph_read_def snd_andThen split: flow.splits)

lemma snd_matrixToGraph_test: "snd (matrixToGraph_test w m cographic want printStats) = []"
  by (simp add: matrixToGraph_test_def snd_andThen split: flow.splits)

lemma matrixToGraph_positive:
  assumes "open_instance w instanceFileName = Some instanceFile"
    and "fst (matrixToGraph_read w instanceFile inputFormat) = Continue m"
    and "fst (matrixToGraph_test w m cographic (outEl \<or> outMat) printStats) = Continue t"
    and "out_isCoGraphic t"
    and "(matrixToGraph_serialize outputFormat cographic m (out_graph t) (out_rowEdges t)
           (out_columnEdges t) None :: (CMR_ERROR, unit) prog) = (Continue (), text)"
  shows "\<exists>rest. snd (matrixToGraph w instanceFileName inputFormat outputFormat cographic
                       outEl outMat printStats) = text @ rest"
proof -
  have r: "matrixToGraph_read w instanceFile inputFormat = (Continue m, [])"
    using assms(2) snd_matrixToGraph_read [of w instanceFile inputFormat] by (simp add: prod_eq_iff)
  have t: "matrixToGraph_test w m cographic (outEl \<or> outMat) printStats = (Continue t, [])"
    using assms(3) snd_matrixToGraph_test [of w m cographic "outEl \<or> outMat" printStats]
    by (simp add: prod_eq_iff)
  show ?thesis
    unfolding matrixToGraph_def
    using assms(1,4,5) r t
    by (simp add: andThen_Continue Let_def snd_andThen)
qed

lemma flag_covers_None [simp]: "flag_covers None e"
  by (simp add: flag_covers_def)

lemma lines_of_None:
  "lines_of g None line es n =
     concat (map (\<lambda>i. line (graphEdgeU g (es ! i)) (graphEdgeV g (es ! i)) i) [0..<n])"
  by (simp add: lines_of_def flag_set_def)

lemma dec_1_2: "dec 1 = ''1''" "dec 2 = ''2''"
  by (simp_all add: dec_def dec_nat.simps digit_def)

lemma snd_abort [simp]: "snd abort = []"
  by (simp add: abort_def)

lemma snd_ret [simp]: "snd (ret r) = []"
  by (simp add: ret_def)

lemma snd_array_read [simp]: "snd (array_read a i) = []"
  by (simp add: array_read_def split: option.splits)

lemma snd_array_read_int [simp]: "snd (array_read_int a e) = []"
  by (simp add: array_read_int_def)

lemma snd_array_write [simp]: "snd (array_write a i v) = []"
  by (simp add: array_write_def)

lemma snd_for_edges:
  assumes "\<And>e s. snd (body e s) = []"
  shows "snd (for_edges es body s) = []"
  by (induction es arbitrary: s) (simp_all add: snd_andThen assms split: flow.splits)

lemma snd_for_loop:
  assumes "\<And>i s. snd (body i s) = []"
  shows "snd (for_loop i n body s) = []"
  using assms
proof (induction i n body s rule: for_loop.induct)
  case (1 i n body s)
  show ?case
  proof (cases "i < n")
    case True
    then have "\<And>x. snd (for_loop (Suc i) n body x) = []"
      using 1 by simp
    then show ?thesis
      using True 1(2) by (simp add: for_loop.simps [of i] snd_andThen split: flow.splits)
  next
    case False
    then show ?thesis by (simp add: for_loop.simps [of i])
  qed
qed

lemma andThen_assoc: "andThen (andThen m f) g = andThen m (\<lambda>x. andThen (f x) g)"
proof (cases m)
  case (Pair fl out)
  show ?thesis
  proof (cases fl)
    case (Continue x)
    then show ?thesis
      using Pair
      by (cases "f x"; cases "fst (f x)")
        (simp_all add: andThen_Continue andThen_Return andThen_Abort fst_andThen snd_andThen
          prod_eq_iff)
  qed (simp_all add: Pair andThen_Return andThen_Abort)
qed

lemma for_edges_append:
  "for_edges (xs @ ys) body s = andThen (for_edges xs body s) (\<lambda>s'. for_edges ys body s')"
proof (induction xs arbitrary: s)
  case Nil
  show ?case by simp
next
  case (Cons x xs)
  have "for_edges (xs @ ys) body = (\<lambda>s. andThen (for_edges xs body s) (\<lambda>s'. for_edges ys body s'))"
    using Cons by (intro ext)
  then show ?case by (simp add: andThen_assoc)
qed

lemma count_step_eq:
  assumes "0 \<le> e" "nat e < length els"
  shows "count_step (Some els) e (a, b) =
           continue (a + (if \<exists>i. els ! nat e = RowElement i then 1 else 0),
                     b + (if \<exists>j. els ! nat e = ColumnElement j then 1 else 0))"
  using assms
  by (simp add: count_step_def array_read_int_def array_read_def split: CMR_ELEMENT.splits)

lemma count_edges:
  assumes "\<forall>e \<in> set es. 0 \<le> e \<and> nat e < length els"
  shows "for_edges es (count_step (Some els)) (a, b) =
           continue (a + length [e \<leftarrow> es. \<exists>i. els ! nat e = RowElement i],
                     b + length [e \<leftarrow> es. \<exists>j. els ! nat e = ColumnElement j])"
  using assms
  by (induction es arbitrary: a b) (simp_all add: count_step_eq)

lemma fill_loop:
  assumes "length a = n" "i \<le> n"
  shows "(for_loop i n (\<lambda>i a. array_write a i (- 1)) a :: ('r, int list) prog) =
           continue (take i a @ replicate (n - i) (- 1))"
  using assms
proof (induction "n - i" arbitrary: i a)
  case 0
  then show ?case by (simp add: for_loop.simps [of i])
next
  case (Suc d)
  then have less: "i < n" by simp
  have "(for_loop (Suc i) n (\<lambda>i a. array_write a i (- 1)) (a[i := - 1]) :: ('r, int list) prog) =
          continue (take (Suc i) (a[i := - 1]) @ replicate (n - Suc i) (- 1))"
    using Suc less by (intro Suc(1)) simp_all
  moreover have "take (Suc i) (a[i := - 1]) @ replicate (n - Suc i) (- 1) =
                 take i a @ replicate (n - i) (- 1)"
  proof -
    have "n - i = Suc (n - Suc i)" using less by simp
    then show ?thesis
      using less Suc(3) by (simp add: take_Suc_conv_app_nth)
  qed
  ultimately show ?case
    using less Suc(3) by (simp add: for_loop.simps [of i] array_write_def)
qed

lemma graphToMatrix_alloc_eq:
  assumes "fst (CMRallocBlockArray w n) = CMR_OKAY"
  shows "graphToMatrix_alloc w n = continue (replicate n (- 1))"
  using assms fill_loop [of "map (snd (CMRallocBlockArray w n)) [0..<n]" n 0]
  by (simp add: graphToMatrix_alloc_def CMR_CALL_def)

lemma scan_step_eq:
  assumes "0 \<le> e" "nat e < length els" "length fE = nF" "length cE = nC"
  shows "scan_step (Some els) nF nC e (fE, cE) =
           continue (case els ! nat e of
                       RowElement i \<Rightarrow> (if i < nF then fE[i := e] else fE, cE)
                     | ColumnElement j \<Rightarrow> (fE, if j < nC then cE[j := e] else cE)
                     | NoElement \<Rightarrow> (fE, cE))"
  using assms
  by (simp add: scan_step_def array_read_int_def array_read_def array_write_def
      split: CMR_ELEMENT.splits)

lemma scan_edges:
  assumes "\<forall>e \<in> set es. 0 \<le> e \<and> nat e < length els" "length fE = nF" "length cE = nC"
  shows "\<exists>fE' cE'.
           (for_edges es (scan_step (Some els) nF nC) (fE, cE)
              :: ('r, int list \<times> int list) prog) = continue (fE', cE') \<and>
           length fE' = nF \<and> length cE' = nC \<and>
           (\<forall>i<nF. if \<exists>e \<in> set es. els ! nat e = RowElement i
                    then fE' ! i \<in> set es \<and> els ! nat (fE' ! i) = RowElement i
                    else fE' ! i = fE ! i) \<and>
           (\<forall>j<nC. if \<exists>e \<in> set es. els ! nat e = ColumnElement j
                    then cE' ! j \<in> set es \<and> els ! nat (cE' ! j) = ColumnElement j
                    else cE' ! j = cE ! j)"
  using assms
proof (induction es arbitrary: fE cE)
  case Nil
  then show ?case by (intro exI [of _ fE] exI [of _ cE]) simp
next
  case (Cons e es)
  define fE1 where "fE1 = (case els ! nat e of RowElement i \<Rightarrow> (if i < nF then fE[i := e] else fE)
                            | _ \<Rightarrow> fE)"
  define cE1 where "cE1 = (case els ! nat e of ColumnElement j \<Rightarrow> (if j < nC then cE[j := e] else cE)
                            | _ \<Rightarrow> cE)"
  have step: "(scan_step (Some els) nF nC e (fE, cE) :: ('r, int list \<times> int list) prog) =
                continue (fE1, cE1)"
    using Cons.prems scan_step_eq [of e els fE nF cE nC]
    by (auto simp: fE1_def cE1_def split: CMR_ELEMENT.splits)
  have len: "length fE1 = nF" "length cE1 = nC"
    using Cons.prems by (simp_all add: fE1_def cE1_def split: CMR_ELEMENT.splits)
  have reads: "\<forall>e \<in> set es. 0 \<le> e \<and> nat e < length els"
    using Cons.prems by simp
  from Cons.IH [OF reads len] obtain fE' cE' where
    run: "(for_edges es (scan_step (Some els) nF nC) (fE1, cE1)
             :: ('r, int list \<times> int list) prog) = continue (fE', cE')"
    and len': "length fE' = nF" "length cE' = nC"
    and rows: "\<forall>i<nF. if \<exists>e \<in> set es. els ! nat e = RowElement i
                 then fE' ! i \<in> set es \<and> els ! nat (fE' ! i) = RowElement i
                 else fE' ! i = fE1 ! i"
    and cols: "\<forall>j<nC. if \<exists>e \<in> set es. els ! nat e = ColumnElement j
                 then cE' ! j \<in> set es \<and> els ! nat (cE' ! j) = ColumnElement j
                 else cE' ! j = cE1 ! j"
    by blast
  have rows1: "\<And>i. i < nF \<Longrightarrow>
      fE1 ! i = (if els ! nat e = RowElement i then e else fE ! i)"
    using Cons.prems(2) by (auto simp: fE1_def split: CMR_ELEMENT.splits)
  have cols1: "\<And>j. j < nC \<Longrightarrow>
      cE1 ! j = (if els ! nat e = ColumnElement j then e else cE ! j)"
    using Cons.prems(3) by (auto simp: cE1_def split: CMR_ELEMENT.splits)
  have "\<forall>i<nF. if \<exists>x \<in> set (e # es). els ! nat x = RowElement i
                 then fE' ! i \<in> set (e # es) \<and> els ! nat (fE' ! i) = RowElement i
                 else fE' ! i = fE ! i"
    using rows rows1 by (auto split: if_splits)
  moreover have "\<forall>j<nC. if \<exists>x \<in> set (e # es). els ! nat x = ColumnElement j
                 then cE' ! j \<in> set (e # es) \<and> els ! nat (cE' ! j) = ColumnElement j
                 else cE' ! j = cE ! j"
    using cols cols1 by (auto split: if_splits)
  ultimately show ?case
    using step run len' by (intro exI [of _ fE'] exI [of _ cE']) simp
qed

lemma scan_step_skip:
  assumes "0 \<le> e" "nat e < length edgeElements"
    and "(\<exists>i. edgeElements ! nat e = RowElement i \<and> nF \<le> i) \<or>
         (\<exists>j. edgeElements ! nat e = ColumnElement j \<and> nC \<le> j) \<or>
         edgeElements ! nat e = NoElement"
  shows "scan_step (Some edgeElements) nF nC e s = continue s"
  using assms
  by (cases s)
    (auto simp: scan_step_def array_read_int_def array_read_def split: CMR_ELEMENT.splits)

lemma snd_graphToMatrix_read: "snd (graphToMatrix_read w file inputFormat) = []"
  by (simp add: graphToMatrix_read_def snd_andThen split: flow.splits)

lemma snd_count_step: "snd (count_step els e s) = []"
  by (cases s) (simp add: count_step_def snd_andThen split: flow.splits CMR_ELEMENT.splits)

lemma snd_scan_step: "snd (scan_step els nF nC e s) = []"
  by (cases s) (simp add: scan_step_def snd_andThen split: flow.splits CMR_ELEMENT.splits)

lemma snd_for_graph_edges:
  assumes "\<And>e s. snd (body e s) = []"
  shows "snd (for_graph_edges graph body s) = []"
  by (simp add: for_graph_edges_def snd_andThen snd_for_edges assms split: flow.splits)

lemma snd_graphToMatrix_alloc: "snd (graphToMatrix_alloc w n) = []"
  by (simp add: graphToMatrix_alloc_def snd_andThen snd_for_loop split: flow.splits)

lemma snd_graphToMatrix_extract: "snd (graphToMatrix_extract w graph edgeElements) = []"
  by (simp add: graphToMatrix_extract_def graphToMatrix_count_def graphToMatrix_scan_def
      snd_andThen snd_for_graph_edges snd_count_step snd_scan_step snd_graphToMatrix_alloc
      split: flow.splits prod.splits)

lemma snd_graphToMatrix_compute:
  "snd (graphToMatrix_compute w cographic graph nF fE nC cE) = []"
  by (simp add: graphToMatrix_compute_def snd_andThen split: flow.splits)

lemma fst_printf [simp]: "fst (printf s) = Continue ()"
  by (simp add: printf_def)

lemma fst_puts [simp]: "fst (puts s) = Continue ()"
  by (simp add: puts_def)

lemma fst_continue [simp]: "fst (continue x) = Continue x"
  by (simp add: continue_def)

lemma fst_ret [simp]: "fst (ret r) = Return r"
  by (simp add: ret_def)

lemma fst_printUsage [simp]: "fst (printUsage program) = Continue EXIT_FAILURE"
  by (simp add: printUsage_def fst_andThen)

lemma main_exit_code:
  "fst (main_exit error) =
     Return (if error = CMR_ERROR_INPUT \<or> error = CMR_ERROR_MEMORY then EXIT_FAILURE else EXIT_SUCCESS)"
  by (cases error) (simp_all add: main_exit_def fst_andThen)

lemma input_formats_simps [simp]:
  "input_formats [] = []"
  "input_formats (Input_format f # as) = format_named f # input_formats as"
  "input_formats (Output_format f # as) = input_formats as"
  "input_formats (File_name n # as) = input_formats as"
  "input_formats (Help # as) = input_formats as"
  "input_formats (Transposed # as) = input_formats as"
  "input_formats (Elements # as) = input_formats as"
  "input_formats (Violator # as) = input_formats as"
  "input_formats (Statistics # as) = input_formats as"
  by (simp_all add: input_formats_def)

lemma output_formats_simps [simp]:
  "output_formats [] = []"
  "output_formats (Output_format f # as) = format_named f # output_formats as"
  "output_formats (Input_format f # as) = output_formats as"
  "output_formats (File_name n # as) = output_formats as"
  "output_formats (Help # as) = output_formats as"
  "output_formats (Transposed # as) = output_formats as"
  "output_formats (Elements # as) = output_formats as"
  "output_formats (Violator # as) = output_formats as"
  "output_formats (Statistics # as) = output_formats as"
  by (simp_all add: output_formats_def)

lemma file_names_simps [simp]:
  "file_names [] = []"
  "file_names (File_name n # as) = n # file_names as"
  "file_names (Input_format f # as) = file_names as"
  "file_names (Output_format f # as) = file_names as"
  "file_names (Help # as) = file_names as"
  "file_names (Transposed # as) = file_names as"
  "file_names (Elements # as) = file_names as"
  "file_names (Violator # as) = file_names as"
  "file_names (Statistics # as) = file_names as"
  by (simp_all add: file_names_def)

lemma after_Nil [simp]: "after_arguments opts [] = opts"
  by (simp add: after_arguments_def split: option.splits)

lemma after_Transposed [simp]:
  "after_arguments opts (Transposed # as) = after_arguments (opts\<lparr>opt_transposed := True\<rparr>) as"
  by (simp add: after_arguments_def cong: option.case_cong)

lemma after_Elements [simp]:
  "after_arguments opts (Elements # as) =
     after_arguments (opts\<lparr>opt_outputNonGraphicElements := True\<rparr>) as"
  by (simp add: after_arguments_def cong: option.case_cong)

lemma after_Violator [simp]:
  "after_arguments opts (Violator # as) =
     after_arguments (opts\<lparr>opt_outputNonGraphicMatrix := True\<rparr>) as"
  by (simp add: after_arguments_def cong: option.case_cong)

lemma after_Statistics [simp]:
  "after_arguments opts (Statistics # as) = after_arguments (opts\<lparr>opt_printStats := True\<rparr>) as"
  by (simp add: after_arguments_def cong: option.case_cong)

lemma after_Input [simp]:
  "after_arguments opts (Input_format f # as) =
     after_arguments (opts\<lparr>opt_inputFormat := format_named f\<rparr>) as"
  by (simp add: after_arguments_def cong: option.case_cong)

lemma after_Output [simp]:
  "after_arguments opts (Output_format f # as) =
     after_arguments (opts\<lparr>opt_outputFormat := format_named f\<rparr>) as"
  by (simp add: after_arguments_def cong: option.case_cong)

lemma after_File [simp]:
  "opt_instanceFileName opts = None \<Longrightarrow>
   after_arguments opts (File_name n # as) = after_arguments (opts\<lparr>opt_instanceFileName := Some n\<rparr>) as"
  by (simp add: after_arguments_def cong: option.case_cong)

lemma parsed_Nil [simp]: "parsed b opts [] = Continue opts"
  by (simp add: parsed_def)

lemma parsed_Help [simp]: "parsed b opts (Help # as) = Return EXIT_SUCCESS"
  by (simp add: parsed_def ends_parsing_def)

lemma parsed_flags [simp]:
  "parsed b opts (Transposed # as) = parsed b (opts\<lparr>opt_transposed := True\<rparr>) as"
  "parsed b opts (Elements # as) = parsed b (opts\<lparr>opt_outputNonGraphicElements := True\<rparr>) as"
  "parsed b opts (Violator # as) = parsed b (opts\<lparr>opt_outputNonGraphicMatrix := True\<rparr>) as"
  "parsed b opts (Statistics # as) = parsed b (opts\<lparr>opt_printStats := True\<rparr>) as"
  by (simp_all add: parsed_def ends_parsing_def is_file_name_def cong: option.case_cong)

lemma parsed_Input:
  "parsed b opts (Input_format f # as) =
     (if format_named f = FILEFORMAT_UNDEFINED \<or> format_named f = FILEFORMAT_GRAPH_DOT
      then Return EXIT_FAILURE
      else parsed b (opts\<lparr>opt_inputFormat := format_named f\<rparr>) as)"
  by (simp add: parsed_def ends_parsing_def is_file_name_def cong: option.case_cong)

lemma parsed_Output:
  "parsed b opts (Output_format f # as) =
     (if format_named f = FILEFORMAT_UNDEFINED then Return EXIT_FAILURE
      else parsed b (opts\<lparr>opt_outputFormat := format_named f\<rparr>) as)"
  by (simp add: parsed_def ends_parsing_def is_file_name_def cong: option.case_cong)

lemma parsed_File:
  "parsed (opt_instanceFileName opts \<noteq> None) opts (File_name n # as) =
     (if opt_instanceFileName opts \<noteq> None then Return EXIT_FAILURE
      else parsed True (opts\<lparr>opt_instanceFileName := Some n\<rparr>) as)"
  by (auto simp: parsed_def ends_parsing_def is_file_name_def cong: option.case_cong)

lemma main_arguments_single:
  assumes "a \<noteq> ''-i'' \<or> rest = []" and "a \<noteq> ''-o'' \<or> rest = []"
    and rest: "\<And>opts'. fst (main_arguments program rest opts') =
                 parsed (opt_instanceFileName opts' \<noteq> None) opts' as"
  shows "fst (main_arguments program (a # rest) opts) =
           parsed (opt_instanceFileName opts \<noteq> None) opts (single_argument a # as)"
proof -
  consider (h) "a = ''-h''" | (t) "a = ''-t''" | (n) "a = ''-n''" | (N) "a = ''-N''"
    | (s) "a = ''-s''"
    | (name) "a \<noteq> ''-h''" "a \<noteq> ''-t''" "a \<noteq> ''-n''" "a \<noteq> ''-N''" "a \<noteq> ''-s''"
    by blast
  then show ?thesis
  proof cases
    case h
    then show ?thesis by (simp add: single_argument_def fst_andThen)
  next
    case t
    then show ?thesis by (simp add: single_argument_def rest)
  next
    case n
    then show ?thesis by (simp add: single_argument_def rest)
  next
    case N
    then show ?thesis by (simp add: single_argument_def rest)
  next
    case s
    then show ?thesis by (simp add: single_argument_def rest)
  next
    case name
    have arg: "single_argument a = File_name a"
      using name by (simp add: single_argument_def)
    have "fst (main_arguments program (a # rest) opts) =
            (case opt_instanceFileName opts of
               None \<Rightarrow> fst (main_arguments program rest (opts\<lparr>opt_instanceFileName := Some a\<rparr>))
             | Some name \<Rightarrow> Return EXIT_FAILURE)"
      using name assms(1,2) by (auto simp: fst_andThen split: option.splits)
    then show ?thesis
      unfolding arg parsed_File by (simp add: rest split: option.splits)
  qed
qed

lemma main_arguments_parsed:
  "fst (main_arguments program arguments opts) =
     parsed (opt_instanceFileName opts \<noteq> None) opts (arguments_of arguments)"
proof (induction arguments arbitrary: opts rule: arguments_of.induct)
  case 1
  show ?case by simp
next
  case (2 a)
  have "fst (main_arguments program [a] opts) =
          parsed (opt_instanceFileName opts \<noteq> None) opts (single_argument a # [])"
    by (rule main_arguments_single) simp_all
  then show ?case by simp
next
  case (3 a b rest)
  consider (inp) "a = ''-i''" | (outp) "a = ''-o''" | (other) "a \<noteq> ''-i''" "a \<noteq> ''-o''"
    by blast
  then show ?case
  proof cases
    case inp
    have ih: "\<And>opts'. fst (main_arguments program rest opts') =
                parsed (opt_instanceFileName opts' \<noteq> None) opts' (arguments_of rest)"
      using "3.IH"(1) inp by simp
    consider "b = ''dense''" | "b = ''sparse''" | "b = ''edgelist''"
      | "b \<noteq> ''dense''" "b \<noteq> ''sparse''" "b \<noteq> ''edgelist''"
      by blast
    then show ?thesis
      by cases (simp_all add: inp parsed_Input format_named_def ih fst_andThen)
  next
    case outp
    have ih: "\<And>opts'. fst (main_arguments program rest opts') =
                parsed (opt_instanceFileName opts' \<noteq> None) opts' (arguments_of rest)"
      using "3.IH"(2) outp by simp
    consider "b = ''dense''" | "b = ''sparse''" | "b = ''edgelist''" | "b = ''dot''"
      | "b \<noteq> ''dense''" "b \<noteq> ''sparse''" "b \<noteq> ''edgelist''" "b \<noteq> ''dot''"
      by blast
    then show ?thesis
      by cases (simp_all add: outp parsed_Output format_named_def ih fst_andThen)
  next
    case other
    have ih: "\<And>opts'. fst (main_arguments program (b # rest) opts') =
                parsed (opt_instanceFileName opts' \<noteq> None) opts' (arguments_of (b # rest))"
      using "3.IH"(3) other by simp
    have "fst (main_arguments program (a # b # rest) opts) =
            parsed (opt_instanceFileName opts \<noteq> None) opts
              (single_argument a # arguments_of (b # rest))"
      using other by (intro main_arguments_single ih) simp_all
    then show ?thesis using other by simp
  qed
qed

lemma main_formats_resolved:
  "fst (main_formats program opts) =
     (let input = (if opt_inputFormat opts \<noteq> FILEFORMAT_UNDEFINED then opt_inputFormat opts
                   else if is_matrix_format (opt_outputFormat opts) then FILEFORMAT_GRAPH_EDGELIST
                   else FILEFORMAT_MATRIX_DENSE);
          output = (if opt_outputFormat opts \<noteq> FILEFORMAT_UNDEFINED then opt_outputFormat opts
                    else if is_matrix_format input then FILEFORMAT_GRAPH_EDGELIST
                    else FILEFORMAT_MATRIX_DENSE)
      in if is_matrix_format input = is_matrix_format output then Return EXIT_FAILURE
         else Continue (opts\<lparr>opt_inputFormat := input, opt_outputFormat := output\<rparr>))"
  by (cases "opt_inputFormat opts"; cases "opt_outputFormat opts")
    (simp_all add: main_formats_def is_matrix_format_def fst_andThen Let_def)

lemma after_arguments_fields:
  "after_arguments initial_options as =
     \<lparr>opt_inputFormat = last (FILEFORMAT_UNDEFINED # input_formats as),
      opt_outputFormat = last (FILEFORMAT_UNDEFINED # output_formats as),
      opt_transposed = (Transposed \<in> set as),
      opt_instanceFileName = (case file_names as of [] \<Rightarrow> None | n # _ \<Rightarrow> Some n),
      opt_outputNonGraphicElements = (Elements \<in> set as),
      opt_outputNonGraphicMatrix = (Violator \<in> set as),
      opt_printStats = (Statistics \<in> set as)\<rparr>"
  by (simp add: after_arguments_def initial_options_def)

lemma main_options_command_line:
  "fst (main_options program arguments) =
     (case command_line arguments of
        Usage_requested \<Rightarrow> Return EXIT_SUCCESS
      | Usage_error \<Rightarrow> Return EXIT_FAILURE
      | Conversion name input output transposed elements violator stats \<Rightarrow>
          Continue \<lparr>opt_inputFormat = input, opt_outputFormat = output,
                    opt_transposed = transposed, opt_instanceFileName = Some name,
                    opt_outputNonGraphicElements = elements,
                    opt_outputNonGraphicMatrix = violator, opt_printStats = stats\<rparr>)"
proof (cases "first_end False (arguments_of arguments)")
  case (Some a)
  then show ?thesis
    by (simp add: main_options_def fst_andThen main_arguments_parsed initial_options_def
        parsed_def command_line_def)
next
  case None
  then have run: "fst (main_arguments program arguments initial_options) =
                    Continue (after_arguments initial_options (arguments_of arguments))"
    by (simp add: main_arguments_parsed initial_options_def parsed_def)
  show ?thesis
  proof (cases "file_names (arguments_of arguments)")
    case Nil
    then show ?thesis
      using None run
      by (simp add: main_options_def fst_andThen after_arguments_fields command_line_def)
  next
    case (Cons name names)
    then show ?thesis
      using None run
      by (simp add: main_options_def fst_andThen after_arguments_fields command_line_def
          main_formats_resolved Let_def)
  qed
qed

lemma fst_call_eq:
  "fst (call body) = (case fst body of Return q \<Rightarrow> Continue q | Continue x \<Rightarrow> Abort | Abort \<Rightarrow> Abort)"
  by (cases body; cases "fst body") (auto simp: call_def)

lemma unopened_matrixToGraph:
  "open_instance w name = None \<Longrightarrow>
     matrixToGraph w name input output cographic elements violator stats = (Return CMR_ERROR_INPUT, [])"
  by (simp add: matrixToGraph_def ret_def)

lemma unopened_graphToMatrix:
  "open_instance w name = None \<Longrightarrow>
     graphToMatrix w name input output cographic = (Return CMR_ERROR_INPUT, [])"
  by (simp add: graphToMatrix_def ret_def)

lemma CMR_CALL_failed: "fst c \<noteq> CMR_OKAY \<Longrightarrow> CMR_CALL c = (Return (fst c), [])"
  by (simp add: CMR_CALL_def ret_def)

lemma CMR_CALL_okay: "fst c = CMR_OKAY \<Longrightarrow> CMR_CALL c = (Continue (snd c), [])"
  by (simp add: CMR_CALL_def continue_def)

text \<open>The definitions a run on a concrete input unfolds.\<close>

lemmas run_simps = matrixToGraph_def open_instance_def matrixToGraph_read_def matrixToGraph_test_def
  matrixToGraph_serialize_def matrixToGraph_release_def matrixToGraph_elements_def matrixToGraph_violator_def
  print_edges_def print_indices_def edge_endpoints_def CMRgraphEdgeU_def CMRgraphEdgeV_def
  CMR_CALL_def CMR_CALL_stdout_def deref_def array_read_def array_read_int_def
  andThen_def continue_def ret_def abort_def printf_def puts_def for_loop.simps
  edgelist_row_line_def edgelist_column_line_def dot_row_line_def dot_column_line_def
  CMRelementString_def CMRrowToElement_def CMRcolumnToElement_def
  dec_def dec_nat.simps digit_def example_world_def graph_of_def 
  example_zoom_def example_dense_def example_sparse_def

lemmas graph_run_simps = graphToMatrix_def graphToMatrix_read_def graphToMatrix_extract_def
  graphToMatrix_count_def graphToMatrix_alloc_def graphToMatrix_scan_def graphToMatrix_compute_def
  graphToMatrix_print_def for_graph_edges_def count_step_def scan_step_def array_write_def
  graph_example_world_def tagged_triangle_def tagged_triangle_elements_def
  tagged_triangle_compute_def

lemmas main_run_simps = main_def main_options_def main_formats_def main_convert_def main_exit_def
  call_def printUsage_def initial_options_def EXIT_FAILURE_def EXIT_SUCCESS_def

lemmas command_line_simps = command_line_def single_argument_def ends_parsing_def
  is_file_name_def format_named_def is_matrix_format_def Let_def

section \<open>The serializer\<close>

text \<open>
  Claim C4. For every positive verdict with edge-list output, each row \<open>i\<close> yields one line
  \<open><u> <v> r<i+1>\<close> and each column \<open>j\<close> one line \<open><u> <v> c<j+1>\<close>, with \<open>u\<close> and \<open>v\<close>
  exchanged exactly when the reversal flag of that edge is present and set; in the graphic
  case all row lines precede all column lines, and in the cographic case all column lines
  precede all row lines. The edge of a row is read from \<open>rowEdges\<close> in the graphic case
  and from \<open>columnEdges\<close> in the cographic case, and the other way round for a column;
  the arrays are assumed to be long enough for the reads, and a flag array that is present
  to have a flag for every edge.
\<close>

theorem edgelist_lines:
  assumes "numRows m \<le> length (if cographic then columnEdges else rowEdges)"
    and "numColumns m \<le> length (if cographic then rowEdges else columnEdges)"
    and "\<forall>flags. edgesReversed = Some flags \<longrightarrow>
           (\<forall>e \<in> set rowEdges \<union> set columnEdges. 0 \<le> e \<and> nat e < length flags)"
  shows "matrixToGraph_serialize FILEFORMAT_GRAPH_EDGELIST cographic m (Some g)
           (Some rowEdges) (Some columnEdges) edgesReversed =
         (Continue (),
          (let swapped = (\<lambda>e. case edgesReversed of None \<Rightarrow> False | Some flags \<Rightarrow> flags ! nat e);
               u = (\<lambda>e. if swapped e then graphEdgeV g e else graphEdgeU g e);
               v = (\<lambda>e. if swapped e then graphEdgeU g e else graphEdgeV g e);
               row_edge = (\<lambda>i. if cographic then columnEdges ! i else rowEdges ! i);
               column_edge = (\<lambda>j. if cographic then rowEdges ! j else columnEdges ! j);
               row_lines = concat (map (\<lambda>i. dec (u (row_edge i)) @ '' '' @ dec (v (row_edge i))
                                             @ '' r'' @ dec (int (i + 1)) @ [CHR 0x0A]) [0..<numRows m]);
               column_lines = concat (map (\<lambda>j. dec (u (column_edge j)) @ '' '' @ dec (v (column_edge j))
                                             @ '' c'' @ dec (int (j + 1)) @ [CHR 0x0A]) [0..<numColumns m])
           in if cographic then column_lines @ row_lines else row_lines @ column_lines))"
proof -
  have cover: "\<And>e. e \<in> set rowEdges \<union> set columnEdges \<Longrightarrow> flag_covers edgesReversed e"
    using assms(3) by (auto simp: flag_covers_def split: option.splits)
  note eq = serialize_edgelist [of m cographic columnEdges rowEdges edgesReversed g, OF assms(1,2) cover]
  show ?thesis
    using eq
    by (cases cographic)
      (simp_all add: Let_def lines_of_def row_line_flag column_line_flag flag_set_def)
qed

theorem edgelist_lines_witness:
  "numRows identity2 \<le> length [2, 3 :: int] \<and> numColumns identity2 \<le> length [0, 1 :: int] \<and>
   (matrixToGraph_serialize FILEFORMAT_GRAPH_EDGELIST True identity2
      (Some (graph_of [(0, 1), (1, 2), (0, 1), (1, 2)])) (Some [0, 1]) (Some [2, 3])
      (Some [False, True, False, False]) :: (CMR_ERROR, unit) prog) =
   (Continue (),
    ''0 1 c1'' @ [CHR 0x0A] @ ''2 1 c2'' @ [CHR 0x0A] @ ''0 1 r1'' @ [CHR 0x0A] @ ''1 2 r2'' @ [CHR 0x0A])"
  using edgelist_lines [of identity2 True "[2, 3]" "[0, 1]" "Some [False, True, False, False]"
      "graph_of [(0, 1), (1, 2), (0, 1), (1, 2)]"]
  by (simp add: identity2_def graph_of_def Let_def upt_conv_Cons dec_def dec_nat.simps digit_def)

text \<open>
  Claim C10. In \<^verbatim>\<open>matrixToGraph\<close> the reversal-flag array is always absent: the variable
  \<^verbatim>\<open>edgesReversed\<close> starts as \<^verbatim>\<open>NULL\<close> and neither engine call receives its address, so
  no branch that exchanges the endpoints is taken. For every run that reaches a positive
  verdict, what the program writes begins with the graph in the requested format, and
  every row line and every column line of it shows the U endpoint of its edge before the
  V endpoint. (The arrays are assumed long enough for the reads the format makes.)
\<close>

theorem endpoints_never_exchanged:
  assumes "open_instance w instanceFileName = Some instanceFile"
    and "fst (matrixToGraph_read w instanceFile inputFormat) = Continue m"
    and "fst (matrixToGraph_test w m cographic
               (outputNonGraphicElements \<or> outputNonGraphicMatrix) printStats) = Continue t"
    and "out_isCoGraphic t"
    and "out_graph t = Some g"
    and "out_rowEdges t = Some rowEdges"
    and "out_columnEdges t = Some columnEdges"
    and "numRows m \<le> length (if outputFormat = FILEFORMAT_GRAPH_EDGELIST \<and> cographic
                               then columnEdges else rowEdges)"
    and "numColumns m \<le> length (if outputFormat = FILEFORMAT_GRAPH_EDGELIST \<and> cographic
                                  then rowEdges else columnEdges)"
  shows "\<exists>rest.
           snd (matrixToGraph w instanceFileName inputFormat outputFormat cographic
                  outputNonGraphicElements outputNonGraphicMatrix printStats) =
           (let row_edge = (\<lambda>i. if outputFormat = FILEFORMAT_GRAPH_EDGELIST \<and> cographic
                                 then columnEdges ! i else rowEdges ! i);
                column_edge = (\<lambda>j. if outputFormat = FILEFORMAT_GRAPH_EDGELIST \<and> cographic
                                    then rowEdges ! j else columnEdges ! j);
                ends = (\<lambda>e. dec (graphEdgeU g e) @ '' '' @ dec (graphEdgeV g e));
                dot_ends = (\<lambda>e. '' v_'' @ dec (graphEdgeU g e) @ '' -- v_'' @ dec (graphEdgeV g e));
                row_lines = concat (map (\<lambda>i. ends (row_edge i) @ '' r'' @ dec (int (i + 1))
                                             @ [CHR 0x0A]) [0..<numRows m]);
                column_lines = concat (map (\<lambda>j. ends (column_edge j) @ '' c'' @ dec (int (j + 1))
                                                @ [CHR 0x0A]) [0..<numColumns m]);
                dot_row_lines = concat (map (\<lambda>i. dot_ends (row_edge i) @ '' [label='' @ [CHR 0x22]
                                                 @ ''r'' @ dec (int (i + 1)) @ [CHR 0x22]
                                                 @ '',style=bold,color=red];'' @ [CHR 0x0A])
                                          [0..<numRows m]);
                dot_column_lines = concat (map (\<lambda>j. dot_ends (column_edge j) @ '' [label='' @ [CHR 0x22]
                                                    @ ''c'' @ dec (int (j + 1)) @ [CHR 0x22]
                                                    @ ''];'' @ [CHR 0x0A])
                                             [0..<numColumns m])
            in if outputFormat = FILEFORMAT_GRAPH_EDGELIST then
                 (if cographic then column_lines @ row_lines else row_lines @ column_lines)
               else if outputFormat = FILEFORMAT_GRAPH_DOT then
                 ''graph G {'' @ [CHR 0x0A] @ dot_row_lines @ dot_column_lines @ ''}'' @ [CHR 0x0A]
               else []) @ rest"
proof -
  let ?run = "matrixToGraph_serialize outputFormat cographic m (out_graph t) (out_rowEdges t)
                (out_columnEdges t) None :: (CMR_ERROR, unit) prog"
  consider (edgelist) "outputFormat = FILEFORMAT_GRAPH_EDGELIST"
    | (dot) "outputFormat = FILEFORMAT_GRAPH_DOT"
    | (other) "outputFormat \<noteq> FILEFORMAT_GRAPH_EDGELIST" "outputFormat \<noteq> FILEFORMAT_GRAPH_DOT"
    by blast
  then show ?thesis
  proof cases
    case edgelist
    have "?run = (Continue (),
            if cographic
            then lines_of g None edgelist_column_line rowEdges (numColumns m)
                 @ lines_of g None edgelist_row_line columnEdges (numRows m)
            else lines_of g None edgelist_row_line rowEdges (numRows m)
                 @ lines_of g None edgelist_column_line columnEdges (numColumns m))"
      using assms(8,9) edgelist
      by (simp add: assms(5,6,7) serialize_edgelist)
    from matrixToGraph_positive [OF assms(1-4) this] show ?thesis
      using edgelist
      by (cases cographic)
        (simp_all add: Let_def lines_of_None edgelist_row_line_def edgelist_column_line_def)
  next
    case dot
    have "?run = (Continue (),
            ''graph G {'' @ [CHR 0x0A]
            @ lines_of g None dot_row_line rowEdges (numRows m)
            @ lines_of g None dot_column_line columnEdges (numColumns m)
            @ ''}'' @ [CHR 0x0A])"
      using assms(8,9) dot
      by (simp add: assms(5,6,7) serialize_dot)
    from matrixToGraph_positive [OF assms(1-4) this] show ?thesis
      using dot
      by (simp add: Let_def lines_of_None dot_row_line_def dot_column_line_def
          CMRelementString_def CMRrowToElement_def CMRcolumnToElement_def)
  next
    case other
    have "?run = (Continue (), [])"
      using other by (simp add: matrixToGraph_serialize_def continue_def)
    from matrixToGraph_positive [OF assms(1-4) this] show ?thesis
      using other by (simp add: Let_def)
  qed
qed

theorem endpoints_never_exchanged_witness:
  "open_instance (example_world identity2 identity2_test no_graph [] no_compute) ''-'' = Some [] \<and>
   fst (matrixToGraph_read (example_world identity2 identity2_test no_graph [] no_compute) []
          FILEFORMAT_MATRIX_DENSE) = Continue identity2 \<and>
   fst (matrixToGraph_test (example_world identity2 identity2_test no_graph [] no_compute) identity2
          False (False \<or> False) False) = Continue identity2_test \<and>
   out_isCoGraphic identity2_test \<and>
   (\<exists>rest.
      snd (matrixToGraph (example_world identity2 identity2_test no_graph [] no_compute) ''-''
             FILEFORMAT_MATRIX_DENSE FILEFORMAT_GRAPH_EDGELIST False False False False) =
      (''0 1 r1'' @ [CHR 0x0A] @ ''1 2 r2'' @ [CHR 0x0A] @ ''0 1 c1'' @ [CHR 0x0A]
       @ ''1 2 c2'' @ [CHR 0x0A]) @ rest)"
proof -
  let ?w = "example_world identity2 identity2_test no_graph [] no_compute"
  have 1: "open_instance ?w ''-'' = Some []"
    by (simp add: open_instance_def example_world_def)
  have 2: "fst (matrixToGraph_read ?w [] FILEFORMAT_MATRIX_DENSE) = Continue identity2"
    by (simp add: run_simps)
  have 3: "fst (matrixToGraph_test ?w identity2 False (False \<or> False) False) = Continue identity2_test"
    by (simp add: run_simps)
  have 4: "out_isCoGraphic identity2_test"
    by (simp add: identity2_test_def)
  have 5: "out_graph identity2_test = Some (graph_of [(0, 1), (1, 2), (0, 1), (1, 2)])"
    "out_rowEdges identity2_test = Some [0, 1]" "out_columnEdges identity2_test = Some [2, 3]"
    by (simp_all add: identity2_test_def)
  show ?thesis
    using 1 2 3 4
      endpoints_never_exchanged [of ?w "''-''" "[]" FILEFORMAT_MATRIX_DENSE identity2 False False
        False False identity2_test, OF 1 2 3 4 5, of FILEFORMAT_GRAPH_EDGELIST]
    by (simp add: identity2_def graph_of_def Let_def upt_conv_Cons dec_def dec_nat.simps digit_def)
qed

text \<open>
  Claim C3, as amended. For the 2 by 2 matrix \<open>[[1,0],[0,1]]\<close> in the graphic direction
  with edge-list output, the serializer writes the line \<open><u0> <v0> r1\<close>, then
  \<open><u1> <v1> r2\<close>, and then one line for each of the two columns, \<open><u2> <v2> c1\<close> and
  \<open><u3> <v3> c2\<close>: the matrix has two columns, and the loop of lines 152-164 runs once
  for each.
\<close>

theorem identity_edgelist:
  "(matrixToGraph_serialize FILEFORMAT_GRAPH_EDGELIST False identity2 (Some g)
      (Some [e0, e1]) (Some [e2, e3]) None :: (CMR_ERROR, unit) prog) =
   (Continue (),
    dec (graphEdgeU g e0) @ '' '' @ dec (graphEdgeV g e0) @ '' r1'' @ [CHR 0x0A]
    @ dec (graphEdgeU g e1) @ '' '' @ dec (graphEdgeV g e1) @ '' r2'' @ [CHR 0x0A]
    @ dec (graphEdgeU g e2) @ '' '' @ dec (graphEdgeV g e2) @ '' c1'' @ [CHR 0x0A]
    @ dec (graphEdgeU g e3) @ '' '' @ dec (graphEdgeV g e3) @ '' c2'' @ [CHR 0x0A])"
proof -
  have "(matrixToGraph_serialize FILEFORMAT_GRAPH_EDGELIST False identity2 (Some g)
      (Some [e0, e1]) (Some [e2, e3]) None :: (CMR_ERROR, unit) prog) =
    (Continue (),
     lines_of g None edgelist_row_line [e0, e1] (numRows identity2)
     @ lines_of g None edgelist_column_line [e2, e3] (numColumns identity2))"
    using serialize_edgelist [of identity2 False "[e2, e3]" "[e0, e1]" None g]
    by (simp add: identity2_def)
  then show ?thesis
    by (simp add: lines_of_None identity2_def upt_conv_Cons edgelist_row_line_def
        edgelist_column_line_def dec_1_2)
qed

theorem identity_edgelist_witness:
  "(matrixToGraph_serialize FILEFORMAT_GRAPH_EDGELIST False identity2
      (Some (graph_of [(0, 1), (1, 2), (0, 1), (1, 2)])) (Some [0, 1]) (Some [2, 3]) None
      :: (CMR_ERROR, unit) prog) =
   (Continue (),
    ''0 1 r1'' @ [CHR 0x0A] @ ''1 2 r2'' @ [CHR 0x0A] @ ''0 1 c1'' @ [CHR 0x0A] @ ''1 2 c2'' @ [CHR 0x0A])"
  using identity_edgelist [of "graph_of [(0, 1), (1, 2), (0, 1), (1, 2)]" 0 1 2 3]
  by (simp add: graph_of_def dec_def dec_nat.simps digit_def)

text \<open>
  The claim as stated, with no column lines, fails on the graph of the example: the
  output has four lines.
\<close>

theorem identity_edgelist_counterexample:
  "snd (matrixToGraph (example_world identity2 identity2_test no_graph [] no_compute) ''-''
          FILEFORMAT_MATRIX_DENSE FILEFORMAT_GRAPH_EDGELIST False False False False) =
     ''0 1 r1'' @ [CHR 0x0A] @ ''1 2 r2'' @ [CHR 0x0A] @ ''0 1 c1'' @ [CHR 0x0A] @ ''1 2 c2'' @ [CHR 0x0A] \<and>
   snd (matrixToGraph (example_world identity2 identity2_test no_graph [] no_compute) ''-''
          FILEFORMAT_MATRIX_DENSE FILEFORMAT_GRAPH_EDGELIST False False False False) \<noteq>
     ''0 1 r1'' @ [CHR 0x0A] @ ''1 2 r2'' @ [CHR 0x0A]"
  by (simp add: run_simps identity2_def identity2_test_def)

text \<open>
  Claim C1 (the code departs from it). The claim asks that in the cographic case every
  output format takes the edge of column \<open>j\<close> from \<open>rowEdges[j]\<close> and the edge of row \<open>i\<close>
  from \<open>columnEdges[i]\<close>. The edge-list branch does (lines 108-136); the dot branch
  (lines 167-199) has no cographic case and reads \<open>rowEdges[row]\<close> and
  \<open>columnEdges[column]\<close>. On the cographic 2 by 2 example the edge list gives row 1 the
  edge from node 2 to node 0, and the dot output draws \<open>r1\<close> between nodes 0 and 1, which
  is the edge of column 1. On the 1 by 2 example the dot branch reads \<open>columnEdges[1]\<close>,
  past the end of the one-element array. (Lemma \<open>serialize_dot_direction\<close>: the dot
  output is the same for both directions.)
\<close>

theorem dot_output_ignores_cographic:
  "matrixToGraph (example_world triangle2 triangle2_test no_graph [] no_compute) ''-''
     FILEFORMAT_MATRIX_DENSE FILEFORMAT_GRAPH_EDGELIST True False False False =
   (Return CMR_OKAY,
    ''0 1 c1'' @ [CHR 0x0A] @ ''1 2 c2'' @ [CHR 0x0A] @ ''2 0 r1'' @ [CHR 0x0A] @ ''1 2 r2'' @ [CHR 0x0A]) \<and>
   matrixToGraph (example_world triangle2 triangle2_test no_graph [] no_compute) ''-''
     FILEFORMAT_MATRIX_DENSE FILEFORMAT_GRAPH_DOT True False False False =
   (Return CMR_OKAY,
    ''graph G {'' @ [CHR 0x0A]
    @ '' v_0 -- v_1 [label='' @ [CHR 0x22] @ ''r1'' @ [CHR 0x22] @ '',style=bold,color=red];'' @ [CHR 0x0A]
    @ '' v_1 -- v_2 [label='' @ [CHR 0x22] @ ''r2'' @ [CHR 0x22] @ '',style=bold,color=red];'' @ [CHR 0x0A]
    @ '' v_2 -- v_0 [label='' @ [CHR 0x22] @ ''c1'' @ [CHR 0x22] @ ''];'' @ [CHR 0x0A]
    @ '' v_1 -- v_2 [label='' @ [CHR 0x22] @ ''c2'' @ [CHR 0x22] @ ''];'' @ [CHR 0x0A]
    @ ''}'' @ [CHR 0x0A]) \<and>
   matrixToGraph (example_world wide wide_test no_graph [] no_compute) ''-''
     FILEFORMAT_MATRIX_DENSE FILEFORMAT_GRAPH_DOT True False False False =
   (Abort,
    ''graph G {'' @ [CHR 0x0A]
    @ '' v_0 -- v_1 [label='' @ [CHR 0x22] @ ''r1'' @ [CHR 0x22] @ '',style=bold,color=red];'' @ [CHR 0x0A]
    @ '' v_2 -- v_0 [label='' @ [CHR 0x22] @ ''c1'' @ [CHR 0x22] @ ''];'' @ [CHR 0x0A])"
  by (simp add: run_simps triangle2_def triangle2_test_def wide_def wide_test_def)

section \<open>The violator\<close>

text \<open>
  Claim C2 (the code departs from it). The claim asks that, on a negative verdict with
  both the element list and the violator matrix requested, both are printed. The block
  that prints the elements ends by freeing \<^verbatim>\<open>submatrix\<close> (line 222), so the test
  \<^verbatim>\<open>submatrix && outputNonGraphicMatrix\<close> of line 225 fails and the matrix is not
  printed. With only the matrix requested it is printed.
\<close>

theorem violator_matrix_not_printed:
  "matrixToGraph (example_world fano fano_test no_graph [] no_compute) ''-''
     FILEFORMAT_MATRIX_DENSE FILEFORMAT_GRAPH_EDGELIST False True True False =
   (Return CMR_OKAY, ''3 rows: 1 2 3'' @ [CHR 0x0A] @ ''4 columns:  1 2 3 4'' @ [CHR 0x0A]) \<and>
   matrixToGraph (example_world fano fano_test no_graph [] no_compute) ''-''
     FILEFORMAT_MATRIX_DENSE FILEFORMAT_GRAPH_EDGELIST False False True False =
   (Return CMR_OKAY,
    ''3 4'' @ [CHR 0x0A] @ '' 1 1 0 1'' @ [CHR 0x0A] @ '' 1 0 1 1'' @ [CHR 0x0A]
    @ '' 0 1 1 1'' @ [CHR 0x0A])"
  by (simp add: run_simps fano_def fano_test_def)

section \<open>Forest Extraction\<close>

text \<open>
  Claim C5. For every input graph whose Row-tagged edges carry exactly the indices
  \<open>0..k-1\<close>, with \<open>k\<close> the number of Row-tagged edges (\<^verbatim>\<open>numForestEdges\<close>), and whose
  Column-tagged edges carry exactly the indices \<open>0..m-1\<close>, with \<open>m\<close> the number of
  Column-tagged edges (\<^verbatim>\<open>numCoforestEdges\<close>), Forest Extraction ends normally with the
  counts \<open>k\<close> and \<open>m\<close> and two arrays of these lengths in which slot \<open>i\<close> of
  \<^verbatim>\<open>forestEdges\<close> holds an edge of the graph tagged \<open>Row(i)\<close>, slot \<open>j\<close> of
  \<^verbatim>\<open>coforestEdges\<close> holds an edge tagged \<open>Column(j)\<close>, and no slot holds the sentinel
  \<open>-1\<close>. (Every edge of the graph has its entry in \<^verbatim>\<open>edgeElements\<close>, and the two
  allocations succeed.)
\<close>

theorem extraction_complete:
  assumes "\<forall>e \<in> set (graphEdges g). 0 \<le> e \<and> nat e < length edgeElements"
    and "k = length [e \<leftarrow> graphEdges g. \<exists>i. edgeElements ! nat e = RowElement i]"
    and "m = length [e \<leftarrow> graphEdges g. \<exists>j. edgeElements ! nat e = ColumnElement j]"
    and "{i. \<exists>e \<in> set (graphEdges g). edgeElements ! nat e = RowElement i} = {0..<k}"
    and "{j. \<exists>e \<in> set (graphEdges g). edgeElements ! nat e = ColumnElement j} = {0..<m}"
    and "fst (CMRallocBlockArray w k) = CMR_OKAY"
    and "fst (CMRallocBlockArray w m) = CMR_OKAY"
  shows "\<exists>forestEdges coforestEdges.
           graphToMatrix_extract w (Some g) (Some edgeElements) =
             (Continue (k, forestEdges, m, coforestEdges), []) \<and>
           length forestEdges = k \<and> length coforestEdges = m \<and>
           (\<forall>i<k. forestEdges ! i \<in> set (graphEdges g) \<and>
                   edgeElements ! nat (forestEdges ! i) = RowElement i) \<and>
           (\<forall>j<m. coforestEdges ! j \<in> set (graphEdges g) \<and>
                   edgeElements ! nat (coforestEdges ! j) = ColumnElement j) \<and>
           - 1 \<notin> set forestEdges \<and> - 1 \<notin> set coforestEdges"
proof -
  have count: "(graphToMatrix_count (Some g) (Some edgeElements) :: (CMR_ERROR, nat \<times> nat) prog) =
                 continue (k, m)"
    using count_edges [OF assms(1), of 0 0]
    by (simp add: graphToMatrix_count_def for_graph_edges_def deref_def assms(2,3))
  from scan_edges [OF assms(1), of "replicate k (- 1)" k "replicate m (- 1)" m]
  obtain fE cE where
    run: "(for_edges (graphEdges g) (scan_step (Some edgeElements) k m)
            (replicate k (- 1), replicate m (- 1)) :: (CMR_ERROR, int list \<times> int list) prog) =
          continue (fE, cE)"
    and len: "length fE = k" "length cE = m"
    and rows: "\<forall>i<k. if \<exists>e \<in> set (graphEdges g). edgeElements ! nat e = RowElement i
                 then fE ! i \<in> set (graphEdges g) \<and> edgeElements ! nat (fE ! i) = RowElement i
                 else fE ! i = replicate k (- 1) ! i"
    and cols: "\<forall>j<m. if \<exists>e \<in> set (graphEdges g). edgeElements ! nat e = ColumnElement j
                 then cE ! j \<in> set (graphEdges g) \<and> edgeElements ! nat (cE ! j) = ColumnElement j
                 else cE ! j = replicate m (- 1) ! j"
    by auto
  have whole: "graphToMatrix_extract w (Some g) (Some edgeElements) = (Continue (k, fE, m, cE), [])"
    using count run assms(6,7)
    by (simp add: graphToMatrix_extract_def graphToMatrix_alloc_eq graphToMatrix_scan_def
        for_graph_edges_def deref_def continue_def andThen_Continue)
  have rows': "\<forall>i<k. fE ! i \<in> set (graphEdges g) \<and> edgeElements ! nat (fE ! i) = RowElement i"
  proof (intro allI impI)
    fix i assume "i < k"
    then have "i \<in> {i. \<exists>e \<in> set (graphEdges g). edgeElements ! nat e = RowElement i}"
      using assms(4) by simp
    then show "fE ! i \<in> set (graphEdges g) \<and> edgeElements ! nat (fE ! i) = RowElement i"
      using rows \<open>i < k\<close> by auto
  qed
  have cols': "\<forall>j<m. cE ! j \<in> set (graphEdges g) \<and> edgeElements ! nat (cE ! j) = ColumnElement j"
  proof (intro allI impI)
    fix j assume "j < m"
    then have "j \<in> {j. \<exists>e \<in> set (graphEdges g). edgeElements ! nat e = ColumnElement j}"
      using assms(5) by simp
    then show "cE ! j \<in> set (graphEdges g) \<and> edgeElements ! nat (cE ! j) = ColumnElement j"
      using cols \<open>j < m\<close> by auto
  qed
  have "- 1 \<notin> set fE"
  proof
    assume "- 1 \<in> set fE"
    then obtain i where "i < k" "fE ! i = - 1"
      using len by (auto simp: in_set_conv_nth)
    then have "- 1 \<in> set (graphEdges g)" using rows' by metis
    then show False using assms(1) by auto
  qed
  moreover have "- 1 \<notin> set cE"
  proof
    assume "- 1 \<in> set cE"
    then obtain j where "j < m" "cE ! j = - 1"
      using len by (auto simp: in_set_conv_nth)
    then have "- 1 \<in> set (graphEdges g)" using cols' by metis
    then show False using assms(1) by auto
  qed
  ultimately show ?thesis
    using whole len rows' cols' by blast
qed

theorem extraction_complete_witness:
  "\<exists>forestEdges coforestEdges.
     graphToMatrix_extract graph_example_world (Some tagged_triangle) (Some tagged_triangle_elements) =
       (Continue (2, forestEdges, 1, coforestEdges), []) \<and>
     length forestEdges = 2 \<and> length coforestEdges = 1 \<and>
     - 1 \<notin> set forestEdges \<and> - 1 \<notin> set coforestEdges"
proof -
  have edges: "graphEdges tagged_triangle = [0, 1, 2]"
    by (simp add: tagged_triangle_def graph_of_def upt_conv_Cons)
  have 1: "\<forall>e \<in> set (graphEdges tagged_triangle). 0 \<le> e \<and> nat e < length tagged_triangle_elements"
    by (simp add: edges tagged_triangle_elements_def)
  have 2: "2 = length [e \<leftarrow> graphEdges tagged_triangle.
                       \<exists>i. tagged_triangle_elements ! nat e = RowElement i]"
    by (simp add: edges tagged_triangle_elements_def)
  have 3: "1 = length [e \<leftarrow> graphEdges tagged_triangle.
                       \<exists>j. tagged_triangle_elements ! nat e = ColumnElement j]"
    by (simp add: edges tagged_triangle_elements_def)
  have 4: "{i. \<exists>e \<in> set (graphEdges tagged_triangle). tagged_triangle_elements ! nat e = RowElement i}
             = {0..<2}"
    by (auto simp: edges tagged_triangle_elements_def)
  have 5: "{j. \<exists>e \<in> set (graphEdges tagged_triangle). tagged_triangle_elements ! nat e = ColumnElement j}
             = {0..<1}"
    by (auto simp: edges tagged_triangle_elements_def)
  have 6: "fst (CMRallocBlockArray graph_example_world 2) = CMR_OKAY"
    "fst (CMRallocBlockArray graph_example_world 1) = CMR_OKAY"
    by (simp_all add: graph_example_world_def example_world_def)
  from extraction_complete [OF 1 2 3 4 5 6] show ?thesis
    by blast
qed

text \<open>
  Claim C6. An edge whose Row tag index is at least \<^verbatim>\<open>numForestEdges\<close>, or whose Column
  tag index is at least \<^verbatim>\<open>numCoforestEdges\<close>, or that carries no tag, is skipped by the
  scan: its step ends normally, writes nothing and leaves both arrays as they were, so
  the scan of a graph with this edge gives the same result as the scan of the graph
  without it.
\<close>

theorem out_of_range_edge_skipped:
  assumes "0 \<le> e" and "nat e < length edgeElements"
    and "(\<exists>i. edgeElements ! nat e = RowElement i \<and> numForestEdges \<le> i) \<or>
         (\<exists>j. edgeElements ! nat e = ColumnElement j \<and> numCoforestEdges \<le> j) \<or>
         edgeElements ! nat e = NoElement"
  shows "(scan_step (Some edgeElements) numForestEdges numCoforestEdges e
            (forestEdges, coforestEdges) :: ('r, int list \<times> int list) prog) =
           (Continue (forestEdges, coforestEdges), []) \<and>
         (graphToMatrix_scan (Some (g\<lparr>graphEdges := before @ e # after\<rparr>)) (Some edgeElements)
            numForestEdges numCoforestEdges (forestEdges, coforestEdges)
            :: ('r, int list \<times> int list) prog) =
           graphToMatrix_scan (Some (g\<lparr>graphEdges := before @ after\<rparr>)) (Some edgeElements)
             numForestEdges numCoforestEdges (forestEdges, coforestEdges)"
proof -
  have skip: "\<And>s. (scan_step (Some edgeElements) numForestEdges numCoforestEdges e s
                      :: ('r, int list \<times> int list) prog) = continue s"
    using assms by (rule scan_step_skip)
  have "(for_edges (before @ e # after)
           (scan_step (Some edgeElements) numForestEdges numCoforestEdges)
           (forestEdges, coforestEdges) :: ('r, int list \<times> int list) prog) =
        for_edges (before @ after)
           (scan_step (Some edgeElements) numForestEdges numCoforestEdges)
           (forestEdges, coforestEdges)"
    by (simp add: for_edges_append skip)
  then show ?thesis
    using skip [of "(forestEdges, coforestEdges)"]
    by (simp add: graphToMatrix_scan_def for_graph_edges_def deref_def) (simp add: continue_def)
qed

theorem out_of_range_edge_skipped_witness:
  "(0::int) \<le> 3 \<and> nat 3 < length [RowElement 1, ColumnElement 0, RowElement 0, RowElement 5] \<and>
   (scan_step (Some [RowElement 1, ColumnElement 0, RowElement 0, RowElement 5]) 3 1 3
      ([2, 0, - 1], [1]) :: (CMR_ERROR, int list \<times> int list) prog) =
     (Continue ([2, 0, - 1], [1]), []) \<and>
   (graphToMatrix_scan (Some (tagged_triangle\<lparr>graphEdges := [0, 1] @ 3 # [2]\<rparr>))
      (Some [RowElement 1, ColumnElement 0, RowElement 0, RowElement 5]) 3 1
      ([- 1, - 1, - 1], [- 1]) :: (CMR_ERROR, int list \<times> int list) prog) =
     (Continue ([2, 0, - 1], [1]), [])"
proof -
  have "(graphToMatrix_scan (Some (tagged_triangle\<lparr>graphEdges := [0, 1] @ [2]\<rparr>))
      (Some [RowElement 1, ColumnElement 0, RowElement 0, RowElement 5]) 3 1
      ([- 1, - 1, - 1], [- 1]) :: (CMR_ERROR, int list \<times> int list) prog) =
     (Continue ([2, 0, - 1], [1]), [])"
    by (simp add: graphToMatrix_scan_def for_graph_edges_def scan_step_def array_write_def
        deref_def array_read_int_def array_read_def andThen_def continue_def abort_def)
  then show ?thesis
    using out_of_range_edge_skipped [of 3 "[RowElement 1, ColumnElement 0, RowElement 0, RowElement 5]"
        3 1 "[2, 0, - 1]" "[1]" "[0, 1]" "[2]" tagged_triangle, where ?'r = CMR_ERROR]
      out_of_range_edge_skipped [of 3 "[RowElement 1, ColumnElement 0, RowElement 0, RowElement 5]"
        3 1 "[- 1, - 1, - 1]" "[- 1]" "[0, 1]" "[2]" tagged_triangle, where ?'r = CMR_ERROR]
    by simp
qed

section \<open>The reconstruction engine's call\<close>

text \<open>
  Claim C7. For every graph-to-matrix conversion exactly one matrix argument of the
  reconstruction engine is requested. The third argument of \<^verbatim>\<open>CMRcomputeGraphicMatrix\<close>
  is the spec's graphic slot and the fourth its cographic slot: when \<^verbatim>\<open>cographic\<close> is set
  the fourth carries the address of \<^verbatim>\<open>matrix\<close> and the third is \<^verbatim>\<open>NULL\<close>, and when it is
  unset the third carries the address and the fourth is \<^verbatim>\<open>NULL\<close>; \<^verbatim>\<open>matrix\<close> then holds
  what the engine stored through the argument that was requested.
\<close>

theorem one_matrix_slot_requested:
  "graphToMatrix_compute w cographic graph numForestEdges forestEdges numCoforestEdges coforestEdges =
     andThen (CMR_CALL (CMRcomputeGraphicMatrix w
       \<lparr>in_graph = graph, in_third = (\<not> cographic), in_fourth = cographic,
        in_numForestEdges = numForestEdges, in_forestEdges = forestEdges,
        in_numCoforestEdges = numCoforestEdges, in_coforestEdges = coforestEdges\<rparr>)) (\<lambda>r.
     continue (if cographic then out_fourth r else out_third r, out_isCorrectForest r))"
  by (simp add: graphToMatrix_compute_def)

theorem one_matrix_slot_requested_witness:
  "graphToMatrix_compute
     (graph_example_world\<lparr>CMRcomputeGraphicMatrix :=
        (\<lambda>i. if in_third i \<and> \<not> in_fourth i then (CMR_OKAY, tagged_triangle_compute)
              else (CMR_ERROR_OTHER 0, no_compute))\<rparr>)
     False (Some tagged_triangle) 2 [2, 0] 1 [1] =
   (Continue (Some \<lparr>numRows = 2, numColumns = 1, entries = [[1], [1]]\<rparr>, False), [])"
  by (simp add: one_matrix_slot_requested CMR_CALL_def tagged_triangle_compute_def andThen_def
      continue_def)

text \<open>
  Claim C8. For every graph-to-matrix conversion that reaches the reconstruction engine
  and gets a result from it, the matrix is written to the output in the requested
  matrix format whatever the value of \<^verbatim>\<open>isCorrectForest\<close>: the text on \<^verbatim>\<open>stdout\<close> is
  exactly what the printer of that format writes for the matrix. (The output format is
  dense or sparse whenever \<^verbatim>\<open>main\<close> starts this conversion; for any other format the
  function stops at \<^verbatim>\<open>assert(false)\<close> with nothing written.)
\<close>

theorem matrix_printed_whatever_isCorrectForest:
  assumes "open_instance w instanceFileName = Some instanceFile"
    and "fst (graphToMatrix_read w instanceFile inputFormat) = Continue (graph, edgeElements)"
    and "fst (graphToMatrix_extract w graph edgeElements) =
           Continue (numForestEdges, forestEdges, numCoforestEdges, coforestEdges)"
    and "fst (graphToMatrix_compute w cographic graph numForestEdges forestEdges
                numCoforestEdges coforestEdges) = Continue (matrix, isCorrectForest)"
  shows "snd (graphToMatrix w instanceFileName inputFormat outputFormat cographic) =
           (if outputFormat = FILEFORMAT_MATRIX_DENSE then
              snd (CMRchrmatPrintDense w matrix (CHR ''0'') False)
            else if outputFormat = FILEFORMAT_MATRIX_SPARSE then
              snd (CMRchrmatPrintSparse w matrix)
            else [])"
proof -
  have r: "graphToMatrix_read w instanceFile inputFormat = (Continue (graph, edgeElements), [])"
    using assms(2) snd_graphToMatrix_read [of w instanceFile inputFormat] by (simp add: prod_eq_iff)
  have x: "graphToMatrix_extract w graph edgeElements =
             (Continue (numForestEdges, forestEdges, numCoforestEdges, coforestEdges), [])"
    using assms(3) snd_graphToMatrix_extract [of w graph edgeElements] by (simp add: prod_eq_iff)
  have c: "graphToMatrix_compute w cographic graph numForestEdges forestEdges
             numCoforestEdges coforestEdges = (Continue (matrix, isCorrectForest), [])"
    using assms(4)
      snd_graphToMatrix_compute [of w cographic graph numForestEdges forestEdges
        numCoforestEdges coforestEdges]
    by (simp add: prod_eq_iff)
  show ?thesis
    unfolding graphToMatrix_def
    using assms(1) r x c
    by (simp add: andThen_Continue snd_andThen graphToMatrix_print_def CMR_CALL_stdout_def
        split: flow.splits)
qed

theorem matrix_printed_whatever_isCorrectForest_witness:
  "open_instance graph_example_world ''-'' = Some [] \<and>
   fst (graphToMatrix_read graph_example_world [] FILEFORMAT_GRAPH_EDGELIST) =
     Continue (Some tagged_triangle, Some tagged_triangle_elements) \<and>
   fst (graphToMatrix_extract graph_example_world (Some tagged_triangle)
          (Some tagged_triangle_elements)) = Continue (2, [2, 0], 1, [1]) \<and>
   fst (graphToMatrix_compute graph_example_world False (Some tagged_triangle) 2 [2, 0] 1 [1]) =
     Continue (Some \<lparr>numRows = 2, numColumns = 1, entries = [[1], [1]]\<rparr>, False) \<and>
   snd (graphToMatrix graph_example_world ''-'' FILEFORMAT_GRAPH_EDGELIST FILEFORMAT_MATRIX_DENSE False) =
     ''2 1'' @ [CHR 0x0A] @ '' 1'' @ [CHR 0x0A] @ '' 1'' @ [CHR 0x0A]"
proof -
  have 1: "open_instance graph_example_world ''-'' = Some []"
    by (simp add: open_instance_def graph_example_world_def example_world_def)
  have 2: "fst (graphToMatrix_read graph_example_world [] FILEFORMAT_GRAPH_EDGELIST) =
             Continue (Some tagged_triangle, Some tagged_triangle_elements)"
    by (simp add: graphToMatrix_read_def graph_example_world_def example_world_def CMR_CALL_def
        andThen_def continue_def)
  have 3: "fst (graphToMatrix_extract graph_example_world (Some tagged_triangle)
             (Some tagged_triangle_elements)) = Continue (2, [2, 0], 1, [1])"
    by (simp add: graph_run_simps run_simps upt_conv_Cons)
  have 4: "fst (graphToMatrix_compute graph_example_world False (Some tagged_triangle) 2 [2, 0] 1 [1]) =
     Continue (Some \<lparr>numRows = 2, numColumns = 1, entries = [[1], [1]]\<rparr>, False)"
    by (simp add: graph_run_simps run_simps)
  show ?thesis
    using 1 2 3 4 matrix_printed_whatever_isCorrectForest [OF 1 2 3 4, of FILEFORMAT_MATRIX_DENSE]
    by (simp add: graph_example_world_def run_simps)
qed

section \<open>The exit code\<close>

text \<open>
  Claim C9, as amended. For every invocation the exit code is decided as follows. When
  the command line asks for the usage text (\<^verbatim>\<open>-h\<close> is read before any argument that is
  refused) the code is 0. When the command line is refused (an unknown format name, a
  second file name, no file name, or two formats that are not one matrix format and one
  graph format) the code is 1, although no input error and no memory error has occurred.
  Otherwise the conversion for the input format runs, and the code is 1 exactly when it
  returns an input error or a memory error and 0 for every other status it returns; a
  run in which the conversion stops abnormally ends without an exit code. A file that
  cannot be opened makes either conversion return the input error, and a stream that a
  parser refuses makes the conversion return the parser's status.
\<close>

theorem exit_code:
  "fst (main w program arguments) =
     (case command_line arguments of
        Usage_requested \<Rightarrow> Return 0
      | Usage_error \<Rightarrow> Return 1
      | Conversion name input output transposed elements violator stats \<Rightarrow>
          (case (if is_matrix_format input
                 then fst (matrixToGraph w name input output transposed elements violator stats)
                 else fst (graphToMatrix w name input output transposed)) of
             Return error \<Rightarrow>
               Return (if error = CMR_ERROR_INPUT \<or> error = CMR_ERROR_MEMORY then 1 else 0)
           | Continue x \<Rightarrow> Abort
           | Abort \<Rightarrow> Abort)) \<and>
   (open_instance w name = None \<longrightarrow>
      matrixToGraph w name input output cographic elements violator stats =
        (Return CMR_ERROR_INPUT, []) \<and>
      graphToMatrix w name input output cographic = (Return CMR_ERROR_INPUT, [])) \<and>
   (open_instance w name = Some file \<and> CMRcreateEnvironment w = CMR_OKAY \<longrightarrow>
      (fst (CMRchrmatCreateFromDenseStream w file) \<noteq> CMR_OKAY \<longrightarrow>
         matrixToGraph w name FILEFORMAT_MATRIX_DENSE output cographic elements violator stats =
           (Return (fst (CMRchrmatCreateFromDenseStream w file)), [])) \<and>
      (fst (CMRchrmatCreateFromSparseStream w file) \<noteq> CMR_OKAY \<longrightarrow>
         matrixToGraph w name FILEFORMAT_MATRIX_SPARSE output cographic elements violator stats =
           (Return (fst (CMRchrmatCreateFromSparseStream w file)), [])) \<and>
      (fst (CMRgraphCreateFromEdgeList w file) \<noteq> CMR_OKAY \<longrightarrow>
         graphToMatrix w name FILEFORMAT_GRAPH_EDGELIST output cographic =
           (Return (fst (CMRgraphCreateFromEdgeList w file)), [])))"
proof (intro conjI impI)
  show "fst (main w program arguments) =
     (case command_line arguments of
        Usage_requested \<Rightarrow> Return 0
      | Usage_error \<Rightarrow> Return 1
      | Conversion name input output transposed elements violator stats \<Rightarrow>
          (case (if is_matrix_format input
                 then fst (matrixToGraph w name input output transposed elements violator stats)
                 else fst (graphToMatrix w name input output transposed)) of
             Return error \<Rightarrow>
               Return (if error = CMR_ERROR_INPUT \<or> error = CMR_ERROR_MEMORY then 1 else 0)
           | Continue x \<Rightarrow> Abort
           | Abort \<Rightarrow> Abort))"
  proof (cases "command_line arguments")
    case Usage_requested
    then show ?thesis
      using main_options_command_line [of program arguments]
      by (simp add: main_def fst_andThen EXIT_SUCCESS_def)
  next
    case Usage_error
    then show ?thesis
      using main_options_command_line [of program arguments]
      by (simp add: main_def fst_andThen EXIT_FAILURE_def)
  next
    case (Conversion n i ou t e v s)
    then show ?thesis
      using main_options_command_line [of program arguments]
      by (simp add: main_def fst_andThen main_convert_def deref_def is_matrix_format_def
          fst_call_eq main_exit_code EXIT_FAILURE_def EXIT_SUCCESS_def split: flow.splits)
  qed
next
  assume "open_instance w name = None"
  then show "matrixToGraph w name input output cographic elements violator stats =
               (Return CMR_ERROR_INPUT, [])"
    by (rule unopened_matrixToGraph)
next
  assume "open_instance w name = None"
  then show "graphToMatrix w name input output cographic = (Return CMR_ERROR_INPUT, [])"
    by (rule unopened_graphToMatrix)
next
  assume "open_instance w name = Some file \<and> CMRcreateEnvironment w = CMR_OKAY"
    and "fst (CMRchrmatCreateFromDenseStream w file) \<noteq> CMR_OKAY"
  then show "matrixToGraph w name FILEFORMAT_MATRIX_DENSE output cographic elements violator stats =
               (Return (fst (CMRchrmatCreateFromDenseStream w file)), [])"
    by (simp add: matrixToGraph_def matrixToGraph_read_def CMR_CALL_failed CMR_CALL_okay
        andThen_Continue andThen_Return)
next
  assume "open_instance w name = Some file \<and> CMRcreateEnvironment w = CMR_OKAY"
    and "fst (CMRchrmatCreateFromSparseStream w file) \<noteq> CMR_OKAY"
  then show "matrixToGraph w name FILEFORMAT_MATRIX_SPARSE output cographic elements violator stats =
               (Return (fst (CMRchrmatCreateFromSparseStream w file)), [])"
    by (simp add: matrixToGraph_def matrixToGraph_read_def CMR_CALL_failed CMR_CALL_okay
        andThen_Continue andThen_Return)
next
  assume "open_instance w name = Some file \<and> CMRcreateEnvironment w = CMR_OKAY"
    and "fst (CMRgraphCreateFromEdgeList w file) \<noteq> CMR_OKAY"
  then show "graphToMatrix w name FILEFORMAT_GRAPH_EDGELIST output cographic =
               (Return (fst (CMRgraphCreateFromEdgeList w file)), [])"
    by (simp add: graphToMatrix_def graphToMatrix_read_def CMR_CALL_failed CMR_CALL_okay
        andThen_Continue andThen_Return)
qed

theorem exit_code_witness:
  "command_line [''m.txt''] =
     Conversion ''m.txt'' FILEFORMAT_MATRIX_DENSE FILEFORMAT_GRAPH_EDGELIST False False False False \<and>
   open_instance unreadable_world ''m.txt'' = None \<and>
   matrixToGraph unreadable_world ''m.txt'' FILEFORMAT_MATRIX_DENSE FILEFORMAT_GRAPH_EDGELIST
     False False False False = (Return CMR_ERROR_INPUT, []) \<and>
   fst (main unreadable_world ''graphic'' [''m.txt'']) = Return 1 \<and>
   command_line [''-t'', ''-h'', ''-i''] = Usage_requested \<and>
   fst (main unreadable_world ''graphic'' [''-t'', ''-h'', ''-i'']) = Return 0"
proof -
  have cl: "command_line [''m.txt''] =
     Conversion ''m.txt'' FILEFORMAT_MATRIX_DENSE FILEFORMAT_GRAPH_EDGELIST False False False False"
    by (simp add: command_line_simps)
  have op: "open_instance unreadable_world ''m.txt'' = None"
    by (simp add: open_instance_def unreadable_world_def example_world_def)
  have usage: "command_line [''-t'', ''-h'', ''-i''] = Usage_requested"
    by (simp add: command_line_simps)
  note inst = exit_code [of unreadable_world "''graphic''" _ "''m.txt''" FILEFORMAT_MATRIX_DENSE
      FILEFORMAT_GRAPH_EDGELIST False False False False]
  show ?thesis
    using cl op usage inst [of "[''m.txt'']"] inst [of "[''-t'', ''-h'', ''-i'']"]
    by (simp add: is_matrix_format_def)
qed

text \<open>
  The claim as stated, non-zero exactly on an input or memory error, fails for a command
  line without a file name: the program prints the usage text and exits with code 1
  before any file is opened or any conversion is started.
\<close>

theorem exit_code_counterexample:
  "fst (main (example_world identity2 identity2_test no_graph [] no_compute) ''graphic'' []) = Return 1 \<and>
   fst (main_options ''graphic'' []) = Return 1"
  by (simp add: main_run_simps run_simps)

end
